theory Spec2Isabelle
  imports Main "HOL-Library.Multiset" "HOL-Library.Sublist"
begin

chapter \<open>SubTransAI: the subtitle processing pipeline\<close>

text \<open>
  A shallow embedding of the SRT pipeline of \<^verbatim>\<open>backend/app/agents\<close>: the validator
  (\<^verbatim>\<open>srt_validator.py\<close>), the splitter (\<^verbatim>\<open>srt_splitter.py\<close>), the translator
  (\<^verbatim>\<open>translator.py\<close>), the reassembler and the file writer (\<^verbatim>\<open>srt_reassembler.py\<close>)
  and the workflow (\<^verbatim>\<open>workflow.py\<close>).

  Conventions.
  \<^item> A Python \<^verbatim>\<open>str\<close> is a \<^typ>\<open>string\<close>. Characters below 128 are the ASCII characters;
    a character from 128 on stands for a byte of the UTF-8 form of a non-ASCII character and
    is an ordinary character for every test below: it is no white space, no line boundary,
    no digit and has no other case. The non-ASCII white space, line boundaries, digits and
    cased letters of Unicode are outside the model.
  \<^item> A raised exception is the left summand of a result \<^typ>\<open>'e + 'a\<close>.
  \<^item> A \<^verbatim>\<open>while i < len(lines)\<close> loop that only ever reads \<^verbatim>\<open>lines[i]\<close> and advances \<^verbatim>\<open>i\<close>
    by one is a recursion over the list of lines; the validator, whose index jumps, keeps
    its index.
  \<^item> The decorator \<^verbatim>\<open>@tool\<close> and all logging calls that no result depends on are left out.
\<close>

section \<open>Python strings\<close>

text \<open>\<^verbatim>\<open>str.isspace\<close> on ASCII: tab, line feed, vertical tab, form feed, carriage return,
  the separators 0x1C..0x1F and the space. It is what \<^verbatim>\<open>str.strip()\<close>, \<^verbatim>\<open>int()\<close> and the
  regular expression class \<^verbatim>\<open>\s\<close> use.\<close>

definition isspace :: "char \<Rightarrow> bool" where
  "isspace c = (let n = (of_char c :: nat) in (9 \<le> n \<and> n \<le> 13) \<or> (28 \<le> n \<and> n \<le> 32))"

text \<open>The line boundaries of \<^verbatim>\<open>str.splitlines()\<close> on ASCII: LF, VT, FF, CR and 0x1C..0x1E
  (CR LF counts as one boundary).\<close>

definition is_linebreak :: "char \<Rightarrow> bool" where
  "is_linebreak c = (let n = (of_char c :: nat) in (10 \<le> n \<and> n \<le> 13) \<or> (28 \<le> n \<and> n \<le> 30))"

definition isdigit :: "char \<Rightarrow> bool" where
  "isdigit c = (let n = (of_char c :: nat) in 48 \<le> n \<and> n \<le> 57)"

definition digit_val :: "char \<Rightarrow> nat" where
  "digit_val c = of_char c - 48"

definition digit_char :: "nat \<Rightarrow> char" where
  "digit_char d = char_of (48 + d)"

text \<open>\<^verbatim>\<open>s.strip()\<close>\<close>

definition strip :: "string \<Rightarrow> string" where
  "strip s = rev (dropWhile isspace (rev (dropWhile isspace s)))"

text \<open>\<^verbatim>\<open>s.splitlines()\<close>: the lines without their boundaries; no empty last line after a
  final boundary.\<close>

fun after_break :: "char \<Rightarrow> string \<Rightarrow> string" where
  "after_break c [] = []"
| "after_break c (d # ds) = (if c = CHR 0x0D \<and> d = CHR 0x0A then ds else d # ds)"

lemma length_after_break: "length (after_break c cs) \<le> length cs"
  by (cases cs) auto

function splitlines :: "string \<Rightarrow> string list" where
  "splitlines [] = []"
| "splitlines (c # cs) =
     (case dropWhile (\<lambda>x. \<not> is_linebreak x) (c # cs) of
        [] \<Rightarrow> [c # cs]
      | b # rest \<Rightarrow> takeWhile (\<lambda>x. \<not> is_linebreak x) (c # cs) # splitlines (after_break b rest))"
  by pat_completeness auto
termination
proof (relation "measure length", goal_cases)
  case 1
  show ?case by simp
next
  case (2 c cs b rest)
  have "length (after_break b rest) \<le> length rest" by (rule length_after_break)
  moreover have "length (b # rest) \<le> length (c # cs)"
    using 2 length_dropWhile_le[of "\<lambda>x. \<not> is_linebreak x" "c # cs"] by simp
  ultimately show ?case by simp
qed

text \<open>\<^verbatim>\<open>sep.join(xs)\<close>\<close>

fun join :: "string \<Rightarrow> string list \<Rightarrow> string" where
  "join sep [] = []"
| "join sep [x] = x"
| "join sep (x # y # ys) = x @ sep @ join sep (y # ys)"

text \<open>\<^verbatim>\<open>int(s)\<close> for a string: white space around it is dropped, then an optional sign and
  decimal digits, where single underscores may stand between digits. \<^verbatim>\<open>None\<close> is the
  \<^verbatim>\<open>ValueError\<close>. (The interpreter's configurable limit on the number of digits is not
  modelled.)\<close>

fun int_digits :: "nat \<Rightarrow> string \<Rightarrow> nat option" where
  "int_digits acc [] = Some acc"
| "int_digits acc (c # cs) =
     (if isdigit c then int_digits (10 * acc + digit_val c) cs
      else if c = CHR ''_'' \<and> cs \<noteq> [] \<and> isdigit (hd cs) then int_digits acc cs
      else None)"

definition int_unsigned :: "string \<Rightarrow> nat option" where
  "int_unsigned s = (case s of [] \<Rightarrow> None
     | c # cs \<Rightarrow> if isdigit c then int_digits (digit_val c) cs else None)"

definition py_int :: "string \<Rightarrow> int option" where
  "py_int s = (case strip s of
       [] \<Rightarrow> None
     | c # cs \<Rightarrow>
         if c = CHR ''-'' then map_option (\<lambda>n. - int n) (int_unsigned cs)
         else if c = CHR ''+'' then map_option int (int_unsigned cs)
         else map_option int (int_unsigned (c # cs)))"

text \<open>\<^verbatim>\<open>str(i)\<close> for an integer.\<close>

fun str_nat :: "nat \<Rightarrow> string" where
  "str_nat n = (if n < 10 then [digit_char n] else str_nat (n div 10) @ [digit_char (n mod 10)])"

declare str_nat.simps [simp del]

definition py_str :: "int \<Rightarrow> string" where
  "py_str i = (if i < 0 then CHR ''-'' # str_nat (nat (- i)) else str_nat (nat i))"

section \<open>Exceptions\<close>

text \<open>The exceptions that the modelled code can raise: \<^verbatim>\<open>re.error\<close> from compiling a pattern
  (with its message), \<^verbatim>\<open>re.error\<close> or \<^verbatim>\<open>IndexError\<close> from compiling a replacement
  template, \<^verbatim>\<open>ValueError\<close>, a failure of a translation service, and \<^verbatim>\<open>OSError\<close>.\<close>


datatype py_error =
    RegexError string
  | TemplateError
  | ValueError string
  | ProviderError string
  | OSError string


text \<open>\<^verbatim>\<open>s.lower()\<close> and \<^verbatim>\<open>sub in s\<close>.\<close>
definition lower_char :: "char \<Rightarrow> char" where
  "lower_char c = (let n = (of_char c :: nat) in if 65 \<le> n \<and> n \<le> 90 then char_of (n + 32) else c)"

definition lower :: "string \<Rightarrow> string" where
  "lower s = map lower_char s"

fun contains :: "string \<Rightarrow> string \<Rightarrow> bool" where
  "contains sub [] = (sub = [])"
| "contains sub (c # cs) = (take (length sub) (c # cs) = sub \<or> contains sub cs)"

section \<open>Regular expressions\<close>

subsection \<open>Replacement: \<^verbatim>\<open>pattern.sub\<close>\<close>

datatype tpl = TChar char | TGroup

definition isoct :: "char \<Rightarrow> bool" where
  "isoct c = (let n = (of_char c :: nat) in 48 \<le> n \<and> n \<le> 55)"

definition isalpha :: "char \<Rightarrow> bool" where
  "isalpha c = (let n = (of_char c :: nat) in (65 \<le> n \<and> n \<le> 90) \<or> (97 \<le> n \<and> n \<le> 122))"

definition chr :: "nat \<Rightarrow> string" where
  "chr n = (if n < 128 then [char_of n] else [char_of (192 + n div 64), char_of (128 + n mod 64)])"

text \<open>The table \<^verbatim>\<open>ESCAPES\<close> of the pattern parser: \<^verbatim>\<open>\a \b \f \n \r \t \v \\\<close>.\<close>

definition template_escapes :: "char \<Rightarrow> char option" where
  "template_escapes e =
     (if e = CHR ''a'' then Some (CHR 0x07) else if e = CHR ''b'' then Some (CHR 0x08)
      else if e = CHR ''f'' then Some (CHR 0x0C) else if e = CHR ''n'' then Some (CHR 0x0A)
      else if e = CHR ''r'' then Some (CHR 0x0D) else if e = CHR ''t'' then Some (CHR 0x09)
      else if e = CHR ''v'' then Some (CHR 0x0B) else if e = CHR 0x5C then Some (CHR 0x5C)
      else None)"

text \<open>One item of a replacement template, as \<^verbatim>\<open>parse_template\<close> reads it for a pattern
  without groups (\<^verbatim>\<open>re.escape(term)\<close> has none). After a backslash:
  \<^item> \<^verbatim>\<open>g<name>\<close> is a group reference; only group 0, the whole match, exists (the name must
    be decimal digits, as from Python 3.12);
  \<^item> \<^verbatim>\<open>0\<close> starts an octal escape of up to three digits;
  \<^item> another digit starts a three-digit octal escape or a reference to a group that does not
    exist;
  \<^item> a letter of \<^verbatim>\<open>ESCAPES\<close> is that character, any other ASCII letter is an error, and
    any other character keeps its backslash.\<close>

definition template_group :: "string \<Rightarrow> py_error + tpl list \<times> string" where
  "template_group rest =
     (case rest of
        [] \<Rightarrow> Inl TemplateError
      | a # r \<Rightarrow>
          if a \<noteq> CHR ''<'' then Inl TemplateError
          else (let name = takeWhile (\<lambda>x. x \<noteq> CHR ''>'') r;
                    after = dropWhile (\<lambda>x. x \<noteq> CHR ''>'') r
                in if after = [] \<or> name = [] then Inl TemplateError
                   else if list_all (\<lambda>x. x = CHR ''0'') name then Inr ([TGroup], tl after)
                   else Inl TemplateError))"

definition template_octal0 :: "string \<Rightarrow> py_error + tpl list \<times> string" where
  "template_octal0 rest =
     (case rest of
        [] \<Rightarrow> Inr ([TChar (CHR 0x00)], [])
      | d1 # r1 \<Rightarrow>
          if \<not> isoct d1 then Inr ([TChar (CHR 0x00)], rest)
          else (case r1 of
              [] \<Rightarrow> Inr ([TChar (char_of (digit_val d1))], [])
            | d2 # r2 \<Rightarrow>
                if \<not> isoct d2 then Inr ([TChar (char_of (digit_val d1))], r1)
                else Inr ([TChar (char_of (8 * digit_val d1 + digit_val d2))], r2)))"

definition template_digit :: "char \<Rightarrow> string \<Rightarrow> py_error + tpl list \<times> string" where
  "template_digit c rest =
     (case rest of
        d1 # d2 # r2 \<Rightarrow>
          if isdigit d1 \<and> isoct c \<and> isoct d1 \<and> isoct d2
          then (let v = 64 * digit_val c + 8 * digit_val d1 + digit_val d2
                in if v > 255 then Inl TemplateError else Inr (map TChar (chr v), r2))
          else Inl TemplateError
      | _ \<Rightarrow> Inl TemplateError)"

definition template_item :: "char \<Rightarrow> string \<Rightarrow> py_error + tpl list \<times> string" where
  "template_item this rest =
     (if this \<noteq> CHR 0x5C then Inr ([TChar this], rest)
      else (case rest of
          [] \<Rightarrow> Inl TemplateError
        | c # rest' \<Rightarrow>
            if c = CHR ''g'' then template_group rest'
            else if c = CHR ''0'' then template_octal0 rest'
            else if isdigit c then template_digit c rest'
            else (case template_escapes c of
                Some e \<Rightarrow> Inr ([TChar e], rest')
              | None \<Rightarrow> if isalpha c then Inl TemplateError
                        else Inr ([TChar (CHR 0x5C), TChar c], rest'))))"

lemma template_item_shorter:
  "template_item this rest = Inr (items, rest') \<Longrightarrow> length rest' \<le> length rest"
proof -
  have g: "\<And>r. template_group r = Inr (items, rest') \<Longrightarrow> length rest' \<le> length r"
  proof -
    fix r assume a: "template_group r = Inr (items, rest')"
    then obtain x r0 where r: "r = x # r0" by (cases r) (auto simp: template_group_def)
    have "length (tl (dropWhile (\<lambda>x. x \<noteq> CHR ''>'') r0)) \<le> length r0"
      using length_dropWhile_le[of "\<lambda>x. x \<noteq> CHR ''>''" r0] by simp
    with a r show "length rest' \<le> length r"
      by (auto simp: template_group_def Let_def split: if_splits)
  qed
  have o: "\<And>r. template_octal0 r = Inr (items, rest') \<Longrightarrow> length rest' \<le> length r"
    by (auto simp: template_octal0_def split: list.splits if_splits)
  have d: "\<And>c r. template_digit c r = Inr (items, rest') \<Longrightarrow> length rest' \<le> length r"
    by (auto simp: template_digit_def Let_def split: list.splits if_splits)
  assume "template_item this rest = Inr (items, rest')"
  then show ?thesis
    using g o d
    by (fastforce simp: template_item_def split: if_splits list.splits option.splits)
qed

function parse_template :: "string \<Rightarrow> py_error + tpl list" where
  "parse_template [] = Inr []"
| "parse_template (this # rest) =
     (case template_item this rest of
        Inl e \<Rightarrow> Inl e
      | Inr (items, rest') \<Rightarrow>
          (case parse_template rest' of Inl e \<Rightarrow> Inl e | Inr others \<Rightarrow> Inr (items @ others)))"
  by pat_completeness auto
termination
proof (relation "measure length", goal_cases)
  case 1
  show ?case by simp
next
  case (2 this rest x2 items rest')
  then show ?case using template_item_shorter[of this rest items rest'] by simp
qed

text \<open>\<^verbatim>\<open>re.compile(re.escape(pat), re.IGNORECASE).sub(repl, s)\<close>: the template is compiled
  first, then every non-overlapping occurrence of \<^verbatim>\<open>pat\<close>, compared without case, is
  replaced from left to right; an empty \<^verbatim>\<open>pat\<close> matches before every character and at the
  end.\<close>

definition expand_template :: "tpl list \<Rightarrow> string \<Rightarrow> string" where
  "expand_template items matched = concat (map (\<lambda>t. case t of TChar c \<Rightarrow> [c] | TGroup \<Rightarrow> matched) items)"

function sub_scan :: "string \<Rightarrow> tpl list \<Rightarrow> string \<Rightarrow> string" where
  "sub_scan pat items [] = []"
| "sub_scan pat items (c # cs) =
     (if pat \<noteq> [] \<and> lower (take (length pat) (c # cs)) = lower pat
      then expand_template items (take (length pat) (c # cs)) @ sub_scan pat items (drop (length pat) (c # cs))
      else c # sub_scan pat items cs)"
  by pat_completeness auto
termination
  by (relation "measure (\<lambda>(pat, items, s). length s)") (auto simp: Suc_le_eq)

definition re_sub_ignorecase :: "string \<Rightarrow> string \<Rightarrow> string \<Rightarrow> py_error + string" where
  "re_sub_ignorecase pat repl s =
     (case parse_template repl of
        Inl e \<Rightarrow> Inl e
      | Inr items \<Rightarrow>
          if pat = [] then Inr (expand_template items [] @ concat (map (\<lambda>c. c # expand_template items []) s))
          else Inr (sub_scan pat items s))"



subsection \<open>Compiling a pattern: character sets\<close>

text \<open>\<^verbatim>\<open>re.finditer\<close> and \<^verbatim>\<open>re.match\<close> compile their pattern first. Of the pattern parser
  (\<^verbatim>\<open>sre_parse\<close>) the model has the part that reads character sets \<^verbatim>\<open>[...]\<close>, which is the
  part that can reject the patterns of this repository; groups and quantifiers are passed
  over. A pattern is its source text; \<open>esc\<close> writes a backslash before a text.

  Inside a set, an item followed by \<^verbatim>\<open>-\<close> and a further item that is not the closing bracket
  is a range, and both ends of a range must be single characters: a class such as \<^verbatim>\<open>\s\<close> on
  either side raises \<^verbatim>\<open>re.error("bad character range ...")\<close>. (Hexadecimal, octal and named
  escapes, which no pattern here uses, are not modelled.)\<close>

definition esc :: "string \<Rightarrow> string" where
  "esc s = CHR 0x5C # s"

definition read_token :: "string \<Rightarrow> py_error + (string \<times> string) option" where
  "read_token source =
     (case source of
        [] \<Rightarrow> Inr None
      | c # rest \<Rightarrow>
          if c = CHR 0x5C
          then (case rest of
                  [] \<Rightarrow> Inl (RegexError ''bad escape (end of pattern)'')
                | e # rest' \<Rightarrow> Inr (Some ([c, e], rest')))
          else Inr (Some ([c], rest)))"

datatype set_code = Literal char | Category char

definition class_escape :: "string \<Rightarrow> py_error + set_code" where
  "class_escape escape =
     (let c = escape ! 1 in
      case template_escapes c of
        Some e \<Rightarrow> Inr (Literal e)
      | None \<Rightarrow>
          if c \<in> set ''dDsSwW'' then Inr (Category c)
          else if isalpha c \<or> isdigit c then Inl (RegexError (''bad escape '' @ escape))
          else Inr (Literal c))"

definition set_code_of :: "string \<Rightarrow> py_error + set_code" where
  "set_code_of this = (if hd this = CHR 0x5C then class_escape this else Inr (Literal (hd this)))"

definition is_literal :: "set_code \<Rightarrow> bool" where
  "is_literal code = (case code of Literal c \<Rightarrow> True | Category c \<Rightarrow> False)"

definition literal_ord :: "set_code \<Rightarrow> nat" where
  "literal_ord code = (case code of Literal c \<Rightarrow> of_char c | Category c \<Rightarrow> 0)"

definition set_item :: "string \<Rightarrow> string \<Rightarrow> py_error + bool \<times> string" where
  "set_item this rest =
     (case set_code_of this of
        Inl e \<Rightarrow> Inl e
      | Inr code1 \<Rightarrow>
          (case rest of
             [] \<Rightarrow> Inr (False, rest)
           | d # rest1 \<Rightarrow>
               if d \<noteq> CHR ''-'' then Inr (False, rest)
               else (case read_token rest1 of
                   Inl e \<Rightarrow> Inl e
                 | Inr None \<Rightarrow> Inl (RegexError ''unterminated character set'')
                 | Inr (Some (that, rest2)) \<Rightarrow>
                     if that = '']'' then Inr (True, rest2)
                     else (case set_code_of that of
                         Inl e \<Rightarrow> Inl e
                       | Inr code2 \<Rightarrow>
                           if \<not> is_literal code1 \<or> \<not> is_literal code2
                           then Inl (RegexError (''bad character range '' @ this @ ''-'' @ that))
                           else if literal_ord code2 < literal_ord code1
                           then Inl (RegexError (''bad character range '' @ this @ ''-'' @ that))
                           else Inr (False, rest2)))))"

lemma read_token_shorter:
  "read_token source = Inr (Some (this, rest)) \<Longrightarrow> length rest < length source"
  by (auto simp: read_token_def split: list.splits if_splits)

lemma set_item_shorter:
  "set_item this rest = Inr (closed, rest') \<Longrightarrow> length rest' \<le> length rest"
  by (auto simp: set_item_def split: sum.splits list.splits if_splits option.splits
      dest!: read_token_shorter)

function parse_set :: "bool \<Rightarrow> string \<Rightarrow> py_error + string" where
  "parse_set nonempty source =
     (case read_token source of
        Inl e \<Rightarrow> Inl e
      | Inr None \<Rightarrow> Inl (RegexError ''unterminated character set'')
      | Inr (Some (this, rest)) \<Rightarrow>
          if this = '']'' \<and> nonempty then Inr rest
          else (case set_item this rest of
              Inl e \<Rightarrow> Inl e
            | Inr (closed, rest') \<Rightarrow> if closed then Inr rest' else parse_set True rest'))"
  by pat_completeness auto
termination
proof (relation "measure (\<lambda>(nonempty, source). length source)", goal_cases)
  case 1
  show ?case by simp
next
  case (2 nonempty source x2 x2a this rest x2b closed rest')
  then show ?case
    using read_token_shorter[of source this rest] set_item_shorter[of this rest closed rest'] by simp
qed

lemma parse_set_shorter: "parse_set nonempty source = Inr rest \<Longrightarrow> length rest < length source"
proof (induction nonempty source rule: parse_set.induct)
  case (1 nonempty source)
  from "1.prems" obtain this r where tok: "read_token source = Inr (Some (this, r))"
    by (subst (asm) parse_set.simps) (auto split: sum.splits option.splits)
  note len = read_token_shorter[OF tok]
  show ?case
  proof (cases "this = '']'' \<and> nonempty")
    case True
    with "1.prems" tok len show ?thesis by (subst (asm) parse_set.simps) simp
  next
    case False
    with "1.prems" tok obtain closed r' where it: "set_item this r = Inr (closed, r')"
      by (subst (asm) parse_set.simps) (auto split: sum.splits)
    note len' = set_item_shorter[OF it]
    show ?thesis
    proof (cases closed)
      case True
      with "1.prems" tok False it len len' show ?thesis by (subst (asm) parse_set.simps) simp
    next
      case nc: False
      with "1.prems" tok False it have "parse_set True r' = Inr rest"
        by (subst (asm) parse_set.simps) simp
      from "1.IH"[OF tok refl refl False it refl nc this] len len' show ?thesis by simp
    qed
  qed
qed

function parse_pattern :: "string \<Rightarrow> py_error option" where
  "parse_pattern source =
     (case read_token source of
        Inl e \<Rightarrow> Some e
      | Inr None \<Rightarrow> None
      | Inr (Some (this, rest)) \<Rightarrow>
          if this = ''[''
          then (case parse_set False (if rest \<noteq> [] \<and> hd rest = CHR ''^'' then tl rest else rest) of
                  Inl e \<Rightarrow> Some e
                | Inr rest' \<Rightarrow> parse_pattern rest')
          else parse_pattern rest)"
  by pat_completeness auto
termination
proof (relation "measure length", goal_cases)
  case 1
  show ?case by simp
next
  case (2 source x2 x2a this rest rest')
  have "length (if rest \<noteq> [] \<and> hd rest = CHR ''^'' then tl rest else rest) \<le> length rest" by simp
  with 2 show ?case
    using read_token_shorter[of source this rest]
      parse_set_shorter[of False "if rest \<noteq> [] \<and> hd rest = CHR ''^'' then tl rest else rest" rest']
    by simp
next
  case (3 source x2 x2a this rest)
  then show ?case using read_token_shorter[of source this rest] by simp
qed

text \<open>The patterns of the repository: the block pattern of \<^verbatim>\<open>split_srt\<close> and the timing
  pattern of \<^verbatim>\<open>validate_srt\<close>.
  \<^verbatim>\<open>(\d+)\s*\n([\d:,\s->]+)\s*\n([\s\S]*?)(?=\n\s*\n\s*\d+\s*\n|$)\<close>
  \<^verbatim>\<open>(\d{2}:\d{2}:\d{2},\d{3})\s*-->\s*(\d{2}:\d{2}:\d{2},\d{3})\<close>\<close>

definition split_pattern :: string where
  "split_pattern = ''('' @ esc ''d+)'' @ esc ''s*'' @ esc ''n(['' @ esc ''d:,'' @ esc ''s->]+)''
     @ esc ''s*'' @ esc ''n(['' @ esc ''s'' @ esc ''S]*?)(?='' @ esc ''n'' @ esc ''s*'' @ esc ''n''
     @ esc ''s*'' @ esc ''d+'' @ esc ''s*'' @ esc ''n|$)''"

definition time_pattern :: string where
  "time_pattern = ''('' @ esc ''d{2}:'' @ esc ''d{2}:'' @ esc ''d{2},'' @ esc ''d{3})'' @ esc ''s*-->''
     @ esc ''s*('' @ esc ''d{2}:'' @ esc ''d{2}:'' @ esc ''d{2},'' @ esc ''d{3})''"


definition re_compile :: "string \<Rightarrow> py_error + string" where
  "re_compile pattern = (case parse_pattern pattern of Some e \<Rightarrow> Inl e | None \<Rightarrow> Inr pattern)"

section \<open>The validator: \<^verbatim>\<open>validate_srt\<close>\<close>

text \<open>An error is \<^verbatim>\<open>{"line": ..., "error": ...}\<close>; the message texts are the constructors of
  \<open>validation_message\<close>, with the line they quote.\<close>

datatype validation_message =
    EmptyFile
  | InvalidNumber string
  | MissingTiming
  | InvalidTiming string
  | MissingText
  | EmptyText

record validation_error =
  ve_line :: nat
  ve_error :: validation_message

record validation_result =
  valid :: bool
  errors :: "validation_error list"

text \<open>\<^verbatim>\<open>re.match(time_pattern, time_line)\<close> matches at the start of the line and does not
  look at what follows the match. Each step below consumes a prefix; \<^verbatim>\<open>\s*\<close> is greedy, and
  no white space is a \<^verbatim>\<open>-\<close>, so there is nothing to backtrack.\<close>

definition match_digits :: "nat \<Rightarrow> string \<Rightarrow> string option" where
  "match_digits n s = (if n \<le> length s \<and> list_all isdigit (take n s) then Some (drop n s) else None)"

definition match_literal :: "string \<Rightarrow> string \<Rightarrow> string option" where
  "match_literal lit s = (if take (length lit) s = lit then Some (drop (length lit) s) else None)"

definition match_timestamp :: "string \<Rightarrow> string option" where
  "match_timestamp s =
     Option.bind (match_digits 2 s) (\<lambda>s.
     Option.bind (match_literal '':'' s) (\<lambda>s.
     Option.bind (match_digits 2 s) (\<lambda>s.
     Option.bind (match_literal '':'' s) (\<lambda>s.
     Option.bind (match_digits 2 s) (\<lambda>s.
     Option.bind (match_literal '','' s) (\<lambda>s.
     match_digits 3 s))))))"

definition time_pattern_match :: "string \<Rightarrow> bool" where
  "time_pattern_match time_line =
     (Option.bind (match_timestamp time_line) (\<lambda>s.
      Option.bind (match_literal ''-->'' (dropWhile isspace s)) (\<lambda>s.
      match_timestamp (dropWhile isspace s))) \<noteq> None)"

text \<open>The two inner loops: \<^verbatim>\<open>while i < len(lines) and lines[i].strip(): i += 1\<close> and its
  negation.\<close>

function skip_text :: "string list \<Rightarrow> nat \<Rightarrow> nat" where
  "skip_text lines i = (if i < length lines \<and> strip (lines ! i) \<noteq> [] then skip_text lines (i + 1) else i)"
  by pat_completeness auto
termination
  by (relation "measure (\<lambda>(lines, i). length lines - i)") auto

function skip_blank :: "string list \<Rightarrow> nat \<Rightarrow> nat" where
  "skip_blank lines i = (if i < length lines \<and> strip (lines ! i) = [] then skip_blank lines (i + 1) else i)"
  by pat_completeness auto
termination
  by (relation "measure (\<lambda>(lines, i). length lines - i)") auto

declare skip_text.simps [simp del] skip_blank.simps [simp del]

lemma skip_text_ge: "i \<le> skip_text lines i"
proof (induction lines i rule: skip_text.induct)
  case (1 lines i)
  show ?case
  proof (cases "i < length lines \<and> strip (lines ! i) \<noteq> []")
    case True
    with 1 have "i + 1 \<le> skip_text lines (i + 1)" by simp
    with True show ?thesis by (subst skip_text.simps) simp
  next
    case False
    then show ?thesis by (subst skip_text.simps) auto
  qed
qed

lemma skip_text_gt: "i < length lines \<Longrightarrow> strip (lines ! i) \<noteq> [] \<Longrightarrow> i < skip_text lines i"
  using skip_text_ge[of "i + 1" lines] by (subst skip_text.simps) simp

lemma skip_blank_ge: "i \<le> skip_blank lines i"
proof (induction lines i rule: skip_blank.induct)
  case (1 lines i)
  show ?case
  proof (cases "i < length lines \<and> strip (lines ! i) = []")
    case True
    with 1 have "i + 1 \<le> skip_blank lines (i + 1)" by simp
    with True show ?thesis by (subst skip_blank.simps) simp
  next
    case False
    then show ?thesis by (subst skip_blank.simps) auto
  qed
qed

text \<open>The main loop from index \<open>i\<close>: the errors appended from there on.\<close>

function validate_loop :: "string list \<Rightarrow> nat \<Rightarrow> validation_error list" where
  "validate_loop lines i =
     (if \<not> i < length lines then []
      else if strip (lines ! i) = [] then validate_loop lines (i + 1)
      else (case py_int (strip (lines ! i)) of
          None \<Rightarrow>
            \<lparr>ve_line = i + 1, ve_error = InvalidNumber (lines ! i)\<rparr>
              # validate_loop lines (skip_text lines i)
        | Some subtitle_number \<Rightarrow>
            if i + 1 \<ge> length lines then [\<lparr>ve_line = i + 1, ve_error = MissingTiming\<rparr>]
            else (let time_line = lines ! (i + 1);
                      timing_errors =
                        (if \<not> time_pattern_match time_line
                         then [\<lparr>ve_line = i + 2, ve_error = InvalidTiming time_line\<rparr>] else [])
                  in if i + 2 \<ge> length lines
                     then timing_errors @ [\<lparr>ve_line = i + 2, ve_error = MissingText\<rparr>]
                     else (let j = skip_text lines (i + 2);
                               has_text = (j \<noteq> i + 2);
                               text_errors =
                                 (if \<not> has_text then [\<lparr>ve_line = j, ve_error = EmptyText\<rparr>] else [])
                           in timing_errors @ text_errors @ validate_loop lines (skip_blank lines j)))))"
  by pat_completeness auto
termination
proof (relation "measure (\<lambda>(lines, i). length lines - i)", goal_cases)
  case 1
  show ?case by simp
next
  case (2 lines i)
  then show ?case by simp
next
  case (3 lines i)
  then show ?case using skip_text_gt[of i lines] by simp
next
  case (4 lines i x2 x xa xb xc)
  have "i + 2 \<le> skip_blank lines (skip_text lines (i + 2))"
    using skip_text_ge[of "i + 2" lines] skip_blank_ge[of "skip_text lines (i + 2)" lines] by simp
  with 4 show ?case by simp
qed

definition validate_srt :: "string \<Rightarrow> validation_result" where
  "validate_srt srt_content =
     (if strip srt_content = [] then \<lparr>valid = False, errors = [\<lparr>ve_line = 0, ve_error = EmptyFile\<rparr>]\<rparr>
      else (let errs = validate_loop (splitlines srt_content) 0
            in \<lparr>valid = (errs = []), errors = errs\<rparr>))"


text \<open>The indices at which the loop reads a subtitle number, that is where \<^verbatim>\<open>int()\<close>
  succeeded: the records as the validator sees them. The function follows the control flow
  of \<^const>\<open>validate_loop\<close> and records nothing else.\<close>

function id_lines :: "string list \<Rightarrow> nat \<Rightarrow> nat list" where
  "id_lines lines i =
     (if \<not> i < length lines then []
      else if strip (lines ! i) = [] then id_lines lines (i + 1)
      else (case py_int (strip (lines ! i)) of
          None \<Rightarrow> id_lines lines (skip_text lines i)
        | Some subtitle_number \<Rightarrow>
            if i + 2 \<ge> length lines then [i]
            else i # id_lines lines (skip_blank lines (skip_text lines (i + 2)))))"
  by pat_completeness auto
termination
proof (relation "measure (\<lambda>(lines, i). length lines - i)", goal_cases)
  case 1
  show ?case by simp
next
  case (2 lines i)
  then show ?case by simp
next
  case (3 lines i)
  then show ?case using skip_text_gt[of i lines] by simp
next
  case (4 lines i x2)
  have "i + 2 \<le> skip_blank lines (skip_text lines (i + 2))"
    using skip_text_ge[of "i + 2" lines] skip_blank_ge[of "skip_text lines (i + 2)" lines] by simp
  with 4 show ?case by simp
qed


section \<open>The splitter: \<^verbatim>\<open>split_srt\<close>\<close>

record subtitle_block =
  sb_id :: int
  sb_content :: string

record chunk =
  chunk_id :: int
  chunk_content :: string
  range_start :: int
  range_end :: int

record split_result =
  split_chunks :: "chunk list"
  total_subtitles :: int

text \<open>The matching of a compiled pattern is the regular expression engine's and is a
  parameter: \<open>finditer pattern content\<close> gives the three groups of every match.\<close>

type_synonym finditer = "string \<Rightarrow> string \<Rightarrow> (string \<times> string \<times> string) list"

definition regex_block :: "string \<times> string \<times> string \<Rightarrow> subtitle_block" where
  "regex_block m =
     (case m of (group1, timing, group3) \<Rightarrow>
        (let subtitle_id = (case py_int group1 of Some n \<Rightarrow> n | None \<Rightarrow> 0);
             subtitle_text = strip group3
         in \<lparr>sb_id = subtitle_id,
             sb_content = py_str subtitle_id @ ''\<newline>'' @ timing @ ''\<newline>'' @ subtitle_text\<rparr>))"

text \<open>The line-by-line parser that runs when the pattern finds no block.\<close>

definition flush_subtitle :: "subtitle_block list \<Rightarrow> string list \<Rightarrow> int option \<Rightarrow> subtitle_block list" where
  "flush_subtitle subtitle_blocks current_block current_subtitle_id =
     (case current_subtitle_id of
        Some subtitle_id \<Rightarrow>
          if current_block \<noteq> []
          then subtitle_blocks @ [\<lparr>sb_id = subtitle_id, sb_content = join ''\<newline>'' current_block\<rparr>]
          else subtitle_blocks
      | None \<Rightarrow> subtitle_blocks)"

fun split_scan ::
  "string list \<Rightarrow> subtitle_block list \<Rightarrow> string list \<Rightarrow> int option
     \<Rightarrow> subtitle_block list \<times> string list \<times> int option" where
  "split_scan [] subtitle_blocks current_block current_subtitle_id =
     (subtitle_blocks, current_block, current_subtitle_id)"
| "split_scan (l # ls) subtitle_blocks current_block current_subtitle_id =
     (let line = strip l in
      if line = [] then split_scan ls subtitle_blocks current_block current_subtitle_id
      else (case py_int line of
          Some subtitle_id \<Rightarrow>
            split_scan ls (flush_subtitle subtitle_blocks current_block current_subtitle_id)
              [line] (Some subtitle_id)
        | None \<Rightarrow>
            split_scan ls subtitle_blocks
              (if current_block \<noteq> [] then current_block @ [line] else current_block)
              current_subtitle_id))"

definition traditional_blocks :: "string \<Rightarrow> subtitle_block list" where
  "traditional_blocks srt_content =
     (case split_scan (splitlines srt_content) [] [] None of
        (subtitle_blocks, current_block, current_subtitle_id) \<Rightarrow>
          flush_subtitle subtitle_blocks current_block current_subtitle_id)"

text \<open>\<^verbatim>\<open>range(0, total_blocks, chunk_size)\<close>: a step of zero raises \<^verbatim>\<open>ValueError\<close>, a negative
  step gives no index. \<^verbatim>\<open>subtitle_blocks[i:end_idx]\<close> is never empty for these indices.\<close>

definition range_starts :: "nat \<Rightarrow> int \<Rightarrow> py_error + nat list" where
  "range_starts total_blocks chunk_size =
     (if chunk_size = 0 then Inl (ValueError ''range() arg 3 must not be zero'')
      else if chunk_size < 0 then Inr []
      else Inr (map (\<lambda>j. j * nat chunk_size) [0..<(total_blocks + nat chunk_size - 1) div nat chunk_size]))"

definition chunk_blocks_at :: "subtitle_block list \<Rightarrow> int \<Rightarrow> nat \<Rightarrow> subtitle_block list" where
  "chunk_blocks_at subtitle_blocks chunk_size i =
     (let end_idx = min (i + nat chunk_size) (length subtitle_blocks)
      in take (end_idx - i) (drop i subtitle_blocks))"

definition make_chunk :: "nat \<Rightarrow> subtitle_block list \<Rightarrow> chunk" where
  "make_chunk n chunk_blocks =
     \<lparr>chunk_id = int n + 1,
      chunk_content = join ''\<newline>\<newline>'' (map sb_content chunk_blocks),
      range_start = sb_id (hd chunk_blocks),
      range_end = sb_id (last chunk_blocks)\<rparr>"

definition make_chunks :: "subtitle_block list \<Rightarrow> int \<Rightarrow> py_error + split_result" where
  "make_chunks subtitle_blocks chunk_size =
     (case range_starts (length subtitle_blocks) chunk_size of
        Inl e \<Rightarrow> Inl e
      | Inr starts \<Rightarrow>
          Inr \<lparr>split_chunks = map (\<lambda>(n, i). make_chunk n (chunk_blocks_at subtitle_blocks chunk_size i))
                          (enumerate 0 starts),
               total_subtitles = int (length subtitle_blocks)\<rparr>)"

definition split_srt :: "finditer \<Rightarrow> string \<Rightarrow> int \<Rightarrow> py_error + split_result" where
  "split_srt finditer srt_content chunk_size =
     (case re_compile split_pattern of
        Inl e \<Rightarrow> Inl e
      | Inr pattern \<Rightarrow>
          (let matched = map regex_block (finditer pattern srt_content);
               subtitle_blocks = (if matched = [] then traditional_blocks srt_content else matched)
           in make_chunks subtitle_blocks chunk_size))"

section \<open>The translator: \<^verbatim>\<open>translate_chunk\<close>\<close>

text \<open>A glossary is an optional dictionary, in insertion order;
  \<^verbatim>\<open>if glossary:\<close> is false for \<^verbatim>\<open>None\<close> and for the empty dictionary, so the loops run
  over \<open>glossary_items\<close>.

  \<^verbatim>\<open>_translate_with_deepseek\<close> and \<^verbatim>\<open>_translate_with_mistral\<close> stand in for calls to a
  translation service: they tag the text and then apply the glossary. The service is a
  parameter here (a \<open>provider\<close>, which may raise); \<open>deepseek_placeholder\<close> and
  \<open>mistral_placeholder\<close> are the two taggings of the source.\<close>

type_synonym glossary = "(string \<times> string) list option"

definition glossary_items :: "glossary \<Rightarrow> (string \<times> string) list" where
  "glossary_items glossary = (case glossary of None \<Rightarrow> [] | Some items \<Rightarrow> items)"

type_synonym provider = "string \<Rightarrow> string \<Rightarrow> string \<Rightarrow> py_error + string"

fun glossary_replace :: "(string \<times> string) list \<Rightarrow> string \<Rightarrow> string \<Rightarrow> py_error + string" where
  "glossary_replace [] text translated_text = Inr translated_text"
| "glossary_replace ((term, translation) # items) text translated_text =
     (if contains (lower term) (lower text)
      then (case re_sub_ignorecase term translation translated_text of
              Inl e \<Rightarrow> Inl e
            | Inr replaced \<Rightarrow> glossary_replace items text replaced)
      else glossary_replace items text translated_text)"

definition translate_with :: "provider \<Rightarrow> string \<Rightarrow> string \<Rightarrow> string \<Rightarrow> glossary \<Rightarrow> py_error + string" where
  "translate_with api text source_lang target_lang glossary =
     (case api text source_lang target_lang of
        Inl e \<Rightarrow> Inl e
      | Inr translated_text \<Rightarrow> glossary_replace (glossary_items glossary) text translated_text)"

definition deepseek_placeholder :: provider where
  "deepseek_placeholder text source_lang target_lang =
     Inr (''['' @ source_lang @ '' -> '' @ target_lang @ ''] '' @ text)"

definition mistral_placeholder :: provider where
  "mistral_placeholder text source_lang target_lang =
     Inr (''[Mistral: '' @ source_lang @ '' -> '' @ target_lang @ ''] '' @ text)"

record engines =
  deepseek_api :: provider
  mistral_api :: provider

definition placeholder_engines :: engines where
  "placeholder_engines = \<lparr>deepseek_api = deepseek_placeholder, mistral_api = mistral_placeholder\<rparr>"

text \<open>A parsed block \<^verbatim>\<open>{"id", "content", "lines"}\<close>, a glossary match and the result.\<close>

record block =
  block_id :: int
  block_content :: string
  block_lines :: "string list"

record glossary_match =
  gm_subtitle_id :: string
  gm_term :: string
  gm_translation :: string

record translate_result =
  tr_translated_content :: string
  tr_engine :: string
  tr_glossary_matches :: "glossary_match list"

text \<open>The parser of \<^verbatim>\<open>translate_chunk\<close>: as the reassembler's, but a block needs a subtitle
  number, so lines before the first number are dropped.\<close>

definition make_block :: "int \<Rightarrow> string list \<Rightarrow> block" where
  "make_block subtitle_id current_block =
     \<lparr>block_id = subtitle_id, block_content = join ''\<newline>'' current_block, block_lines = current_block\<rparr>"

definition flush_block :: "block list \<Rightarrow> string list \<Rightarrow> int option \<Rightarrow> block list" where
  "flush_block subtitle_blocks current_block current_subtitle_id =
     (case current_subtitle_id of
        Some subtitle_id \<Rightarrow>
          if current_block \<noteq> [] then subtitle_blocks @ [make_block subtitle_id current_block]
          else subtitle_blocks
      | None \<Rightarrow> subtitle_blocks)"

fun translate_scan ::
  "string list \<Rightarrow> block list \<Rightarrow> string list \<Rightarrow> int option \<Rightarrow> block list \<times> string list \<times> int option" where
  "translate_scan [] subtitle_blocks current_block current_subtitle_id =
     (subtitle_blocks, current_block, current_subtitle_id)"
| "translate_scan (l # ls) subtitle_blocks current_block current_subtitle_id =
     (let line = strip l in
      if line = [] then translate_scan ls subtitle_blocks current_block current_subtitle_id
      else (case py_int line of
          Some subtitle_id \<Rightarrow>
            translate_scan ls (flush_block subtitle_blocks current_block current_subtitle_id)
              [line] (Some subtitle_id)
        | None \<Rightarrow>
            translate_scan ls subtitle_blocks
              (if current_block \<noteq> [] then current_block @ [line] else current_block)
              current_subtitle_id))"

definition parse_chunk :: "string \<Rightarrow> block list" where
  "parse_chunk chunk_text =
     (case translate_scan (splitlines chunk_text) [] [] None of
        (subtitle_blocks, current_block, current_subtitle_id) \<Rightarrow>
          flush_block subtitle_blocks current_block current_subtitle_id)"

text \<open>The loop over the blocks. A block of fewer than three lines is appended as it is.
  Otherwise the glossary matches are noted, the text is translated by the engine chosen,
  and the block is rebuilt. An exception ends the loop. The first component of the result
  lists the texts handed to a provider, in order.\<close>

definition block_text :: "block \<Rightarrow> string" where
  "block_text b = join ''\<newline>'' (drop 2 (block_lines b))"

definition find_matches :: "glossary \<Rightarrow> string \<Rightarrow> string \<Rightarrow> glossary_match list" where
  "find_matches glossary subtitle_id text =
     map (\<lambda>(term, translation). \<lparr>gm_subtitle_id = subtitle_id, gm_term = term, gm_translation = translation\<rparr>)
       (filter (\<lambda>(term, translation). contains (lower term) (lower text)) (glossary_items glossary))"

definition translate_text ::
  "engines \<Rightarrow> string option \<Rightarrow> string \<Rightarrow> string \<Rightarrow> string \<Rightarrow> string \<Rightarrow> glossary \<Rightarrow> py_error + string" where
  "translate_text apis deepseek_api_key engine text source_lang target_lang glossary =
     (if engine = ''deepseek'' \<and> deepseek_api_key \<noteq> None \<and> deepseek_api_key \<noteq> Some []
      then translate_with (deepseek_api apis) text source_lang target_lang glossary
      else if engine = ''mistral''
      then translate_with (mistral_api apis) text source_lang target_lang glossary
      else translate_with (deepseek_api apis) text source_lang target_lang glossary)"

definition translated_block :: "block \<Rightarrow> string \<Rightarrow> block" where
  "translated_block b translated_text =
     (let subtitle_id = block_lines b ! 0; time_line = block_lines b ! 1 in
      \<lparr>block_id = block_id b,
       block_content = subtitle_id @ ''\<newline>'' @ time_line @ ''\<newline>'' @ translated_text,
       block_lines = [subtitle_id, time_line] @ splitlines translated_text\<rparr>)"

fun translate_blocks ::
  "engines \<Rightarrow> string option \<Rightarrow> string \<Rightarrow> string \<Rightarrow> string \<Rightarrow> glossary \<Rightarrow> block list
     \<Rightarrow> string list \<times> (py_error + block list \<times> glossary_match list)" where
  "translate_blocks apis key engine source_lang target_lang glossary [] = ([], Inr ([], []))"
| "translate_blocks apis key engine source_lang target_lang glossary (b # bs) =
     (if length (block_lines b) < 3
      then (case translate_blocks apis key engine source_lang target_lang glossary bs of
              (calls, Inl e) \<Rightarrow> (calls, Inl e)
            | (calls, Inr (translated_blocks, glossary_matches)) \<Rightarrow>
                (calls, Inr (b # translated_blocks, glossary_matches)))
      else (let text = block_text b;
                found = find_matches glossary (block_lines b ! 0) text
            in case translate_text apis key engine text source_lang target_lang glossary of
                 Inl e \<Rightarrow> ([text], Inl e)
               | Inr translated_text \<Rightarrow>
                   (case translate_blocks apis key engine source_lang target_lang glossary bs of
                      (calls, Inl e) \<Rightarrow> (text # calls, Inl e)
                    | (calls, Inr (translated_blocks, glossary_matches)) \<Rightarrow>
                        (text # calls,
                         Inr (translated_block b translated_text # translated_blocks,
                              found @ glossary_matches)))))"

definition translate_chunk_calls ::
  "engines \<Rightarrow> string option \<Rightarrow> string \<Rightarrow> string \<Rightarrow> string \<Rightarrow> glossary \<Rightarrow> string \<Rightarrow> string list" where
  "translate_chunk_calls apis key chunk_text source_lang target_lang glossary engine =
     fst (translate_blocks apis key engine source_lang target_lang glossary (parse_chunk chunk_text))"

definition translate_chunk ::
  "engines \<Rightarrow> string option \<Rightarrow> string \<Rightarrow> string \<Rightarrow> string \<Rightarrow> glossary \<Rightarrow> string
     \<Rightarrow> py_error + translate_result" where
  "translate_chunk apis key chunk_text source_lang target_lang glossary engine =
     (case snd (translate_blocks apis key engine source_lang target_lang glossary (parse_chunk chunk_text)) of
        Inl e \<Rightarrow> Inl e
      | Inr (translated_blocks, glossary_matches) \<Rightarrow>
          Inr \<lparr>tr_translated_content = join ''\<newline>\<newline>'' (map block_content translated_blocks),
               tr_engine = engine,
               tr_glossary_matches = glossary_matches\<rparr>)"

text \<open>A block that the loop passes through: fewer than two lines after its number.\<close>

definition malformed :: "block \<Rightarrow> bool" where
  "malformed b = (length (block_lines b) < 3)"

section \<open>The reassembler: \<^verbatim>\<open>reassemble_srt\<close>\<close>

text \<open>A translated chunk is the dictionary \<^verbatim>\<open>{"id": ..., "translated_content": ...}\<close> that
  the workflow builds; the result is \<^verbatim>\<open>{"content": ..., "subtitle_count": ...}\<close>.\<close>

record translated_chunk =
  tc_id :: int
  translated_content :: string

record reassemble_result =
  content :: string
  subtitle_count :: int

text \<open>The \<^verbatim>\<open>while\<close> loop over the lines of one chunk: blank lines are skipped, a line that
  \<^verbatim>\<open>int()\<close> accepts closes the current block (if it is not empty) and opens a new one, any
  other line is appended to the current block, also when that block is still empty.\<close>

fun reassemble_scan ::
  "string list \<Rightarrow> string list list \<Rightarrow> string list \<Rightarrow> string list list \<times> string list" where
  "reassemble_scan [] subtitle_blocks current_block = (subtitle_blocks, current_block)"
| "reassemble_scan (l # ls) subtitle_blocks current_block =
     (let line = strip l in
      if line = [] then reassemble_scan ls subtitle_blocks current_block
      else (case py_int line of
          Some subtitle_id \<Rightarrow>
            reassemble_scan ls
              (if current_block \<noteq> [] then subtitle_blocks @ [current_block] else subtitle_blocks)
              [line]
        | None \<Rightarrow> reassemble_scan ls subtitle_blocks (current_block @ [line])))"

definition reassemble_blocks :: "string \<Rightarrow> string list list" where
  "reassemble_blocks translated =
     (case reassemble_scan (splitlines translated) [] [] of
        (subtitle_blocks, current_block) \<Rightarrow>
          if current_block \<noteq> [] then subtitle_blocks @ [current_block] else subtitle_blocks)"

text \<open>\<^verbatim>\<open>sorted(chunks, key=...)\<close> is a stable sort, as \<^const>\<open>sort_key\<close> is.\<close>

definition all_subtitles :: "translated_chunk list \<Rightarrow> string list list" where
  "all_subtitles chunks =
     concat (map (\<lambda>chunk. reassemble_blocks (translated_content chunk)) (sort_key tc_id chunks))"

text \<open>\<^verbatim>\<open>subtitle[0] = str(i + 1)\<close> for every block, by position.\<close>

definition renumber :: "string list list \<Rightarrow> string list list" where
  "renumber subs =
     map (\<lambda>(i, subtitle). if subtitle \<noteq> [] then py_str (int i + 1) # tl subtitle else subtitle)
       (enumerate 0 subs)"

definition render :: "string list list \<Rightarrow> string" where
  "render subs =
     concat (map (\<lambda>subtitle. if subtitle \<noteq> [] then join ''\<newline>'' subtitle @ ''\<newline>\<newline>'' else []) subs)"

definition final_subtitles :: "translated_chunk list \<Rightarrow> bool \<Rightarrow> string list list" where
  "final_subtitles chunks normalize_ids =
     (if normalize_ids then renumber (all_subtitles chunks) else all_subtitles chunks)"

definition reassemble_srt :: "translated_chunk list \<Rightarrow> bool \<Rightarrow> reassemble_result" where
  "reassemble_srt chunks normalize_ids =
     \<lparr>content = strip (render (final_subtitles chunks normalize_ids)),
      subtitle_count = int (length (all_subtitles chunks))\<rparr>"

text \<open>The non-blank lines of a chunk, stripped, as the loop sees them.\<close>

definition content_lines :: "string \<Rightarrow> string list" where
  "content_lines translated = filter (\<lambda>l. l \<noteq> []) (map strip (splitlines translated))"

definition good_block :: "string list \<Rightarrow> bool" where
  "good_block b = (b \<noteq> [] \<and> list_all (\<lambda>l. py_int l = None) (tl b))"

section \<open>The file writer: \<^verbatim>\<open>save_srt_file\<close>\<close>

text \<open>The file system is a map from paths to file contents. Each system call may fail, as
  \<open>io_faults\<close> says: \<open>write_fails = Some n\<close> is a write (or the flush on closing) that raises
  after \<open>n\<close> characters have reached the file. The events list what was done to the
  file system, in order.\<close>

type_synonym fs = "string \<rightharpoonup> string"

record io_faults =
  makedirs_fails :: bool
  open_fails :: bool
  write_fails :: "nat option"
  rename_fails :: bool
  getsize_fails :: bool
  remove_fails :: bool

datatype io_event =
    OpenForWrite string
  | WriteData string string
  | Rename string string
  | Remove string

record save_result =
  file_path :: string
  file_size :: int

text \<open>\<^verbatim>\<open>os.path.join(a, b)\<close> on POSIX.\<close>

definition os_path_join :: "string \<Rightarrow> string \<Rightarrow> string" where
  "os_path_join a b =
     (if take 1 b = ''/'' then b
      else if a = [] \<or> last a = CHR ''/'' then a @ b
      else a @ ''/'' @ b)"

text \<open>The \<^verbatim>\<open>except\<close> branch: remove the temporary file if it exists, then re-raise.\<close>

definition cleanup ::
  "io_faults \<Rightarrow> string \<Rightarrow> py_error \<Rightarrow> fs \<Rightarrow> io_event list
     \<Rightarrow> (py_error + save_result) \<times> fs \<times> io_event list" where
  "cleanup faults tmp_path e files events =
     (if files tmp_path \<noteq> None
      then (if remove_fails faults then (Inl (OSError ''remove''), files, events)
            else (Inl e, files(tmp_path := None), events @ [Remove tmp_path]))
      else (Inl e, files, events))"

definition save_srt_file ::
  "io_faults \<Rightarrow> string \<Rightarrow> string \<Rightarrow> string \<Rightarrow> fs
     \<Rightarrow> (py_error + save_result) \<times> fs \<times> io_event list" where
  "save_srt_file faults srt_content task_id output_dir files =
     (if makedirs_fails faults then (Inl (OSError ''makedirs''), files, [])
      else (let final_path = os_path_join output_dir (task_id @ ''.srt'');
                tmp_path = final_path @ ''.tmp''
            in if open_fails faults then cleanup faults tmp_path (OSError ''open'') files []
               else (let opened = files(tmp_path \<mapsto> []);
                         events1 = [OpenForWrite tmp_path]
                     in case write_fails faults of
                          Some n \<Rightarrow>
                            cleanup faults tmp_path (OSError ''write'')
                              (opened(tmp_path \<mapsto> take n srt_content))
                              (events1 @ [WriteData tmp_path (take n srt_content)])
                        | None \<Rightarrow>
                            (let written = opened(tmp_path \<mapsto> srt_content);
                                 events2 = events1 @ [WriteData tmp_path srt_content]
                             in if rename_fails faults
                                then cleanup faults tmp_path (OSError ''rename'') written events2
                                else (let renamed = (written(tmp_path := None))(final_path \<mapsto> srt_content);
                                          events3 = events2 @ [Rename tmp_path final_path]
                                      in if getsize_fails faults
                                         then cleanup faults tmp_path (OSError ''getsize'') renamed events3
                                         else (Inr \<lparr>file_path = final_path,
                                                    file_size = int (length srt_content)\<rparr>,
                                               renamed, events3))))))"

definition no_faults :: io_faults where
  "no_faults = \<lparr>makedirs_fails = False, open_fails = False, write_fails = None,
     rename_fails = False, getsize_fails = False, remove_fails = False\<rparr>"

section \<open>The workflow: \<^verbatim>\<open>TranslationWorkflow.process\<close>\<close>

text \<open>An agent method catches every exception of its tool and answers with a dictionary that
  has an \<^verbatim>\<open>"error"\<close> key then: a \<open>reply\<close> with a \<open>failure\<close>.\<close>

record 'a reply =
  payload :: 'a
  failure :: "py_error option"

record settings =
  DEEPSEEK_API_KEY :: "string option"
  AGNO_DEFAULT_ENGINE :: string
  AGNO_CHUNK_SIZE :: int

definition validator_agent_validate :: "string \<Rightarrow> validation_result" where
  "validator_agent_validate srt_content = validate_srt srt_content"

definition splitter_agent_split :: "finditer \<Rightarrow> string \<Rightarrow> int \<Rightarrow> split_result reply" where
  "splitter_agent_split finditer srt_content chunk_size =
     (case split_srt finditer srt_content chunk_size of
        Inr result \<Rightarrow> \<lparr>payload = result, failure = None\<rparr>
      | Inl e \<Rightarrow> \<lparr>payload = \<lparr>split_chunks = [], total_subtitles = 0\<rparr>, failure = Some e\<rparr>)"

definition translator_agent_translate ::
  "engines \<Rightarrow> settings \<Rightarrow> string \<Rightarrow> string \<Rightarrow> string \<Rightarrow> glossary \<Rightarrow> string option
     \<Rightarrow> translate_result reply" where
  "translator_agent_translate apis config chunk_text source_lang target_lang glossary engine =
     (let engine = (case engine of None \<Rightarrow> AGNO_DEFAULT_ENGINE config | Some name \<Rightarrow> name)
      in case translate_chunk apis (DEEPSEEK_API_KEY config) chunk_text source_lang target_lang glossary engine of
           Inr result \<Rightarrow> \<lparr>payload = result, failure = None\<rparr>
         | Inl e \<Rightarrow>
             \<lparr>payload = \<lparr>tr_translated_content = [], tr_engine = engine, tr_glossary_matches = []\<rparr>,
              failure = Some e\<rparr>)"

definition reassembler_agent_reassemble :: "translated_chunk list \<Rightarrow> bool \<Rightarrow> reassemble_result reply" where
  "reassembler_agent_reassemble translated_chunks normalize_ids =
     \<lparr>payload = reassemble_srt translated_chunks normalize_ids, failure = None\<rparr>"

definition reassembler_agent_save_file ::
  "io_faults \<Rightarrow> string \<Rightarrow> string \<Rightarrow> string \<Rightarrow> fs \<Rightarrow> save_result reply \<times> fs \<times> io_event list" where
  "reassembler_agent_save_file faults srt_content task_id output_dir files =
     (case save_srt_file faults srt_content task_id output_dir files of
        (Inr result, files', events) \<Rightarrow> (\<lparr>payload = result, failure = None\<rparr>, files', events)
      | (Inl e, files', events) \<Rightarrow>
          (\<lparr>payload = \<lparr>file_path = [], file_size = 0\<rparr>, failure = Some e\<rparr>, files', events))"

text \<open>The workflow holds its agents in fields, and the tests replace their methods; so the
  agents are a parameter of \<open>process\<close>. A replaced method may raise, which the \<^verbatim>\<open>try\<close> around
  the whole of \<^verbatim>\<open>process\<close> catches.

  A run gives back its result, the notifications sent and the \<^verbatim>\<open>logger.error\<close> entries
  written. \<^verbatim>\<open>asyncio.gather\<close> is modelled in list order.\<close>

record url_result =
  download_url :: string
  expiry_time :: string

record agents =
  validate :: "string \<Rightarrow> py_error + validation_result"
  split :: "string \<Rightarrow> int \<Rightarrow> py_error + split_result reply"
  translate :: "string \<Rightarrow> string \<Rightarrow> string \<Rightarrow> glossary \<Rightarrow> string \<Rightarrow> py_error + translate_result reply"
  reassemble :: "translated_chunk list \<Rightarrow> py_error + reassemble_result reply"
  save_file :: "string \<Rightarrow> string \<Rightarrow> py_error + save_result reply"
  generate_url :: "string \<Rightarrow> string \<Rightarrow> py_error + url_result reply"

datatype failure_reason =
    ValidationFailed
  | SplitFailed
  | AllChunksFailed
  | ReassemblyFailed
  | SaveFailed
  | UrlFailed
  | ProcessingError py_error

datatype details =
    ValidationDetails validation_result
  | SplitDetails "split_result reply"
  | TranslationDetails "translate_result reply list"
  | ReassemblyDetails "reassemble_result reply"
  | SaveDetails "save_result reply"
  | UrlDetails "url_result reply"

record completed_run =
  run_task_id :: string
  run_download_url :: string
  run_subtitle_count :: int
  run_file_size :: int
  run_expiry_time :: string

datatype process_result =
    Completed completed_run
  | Failed string failure_reason "details option"

datatype notification =
    NotifyProcessing
  | NotifyCompleted string
  | NotifyFailed failure_reason

datatype log_entry =
    LogStepFailed failure_reason
  | LogChunkFailed nat "py_error option"

type_synonym run = "process_result \<times> notification list \<times> log_entry list"

definition stop_failed ::
  "string \<Rightarrow> failure_reason \<Rightarrow> details option \<Rightarrow> notification list \<Rightarrow> log_entry list \<Rightarrow> run" where
  "stop_failed task_id reason info sent logged =
     (Failed task_id reason info, sent @ [NotifyFailed reason], logged @ [LogStepFailed reason])"

fun gather :: "(py_error + 'a) list \<Rightarrow> py_error + 'a list" where
  "gather [] = Inr []"
| "gather (Inl e # tasks) = Inl e"
| "gather (Inr r # tasks) = (case gather tasks of Inl e \<Rightarrow> Inl e | Inr rs \<Rightarrow> Inr (r # rs))"

definition chunk_failures :: "translate_result reply list \<Rightarrow> log_entry list" where
  "chunk_failures translation_results =
     map (\<lambda>(i, result). LogChunkFailed (i + 1) (failure result))
       (filter (\<lambda>(i, result). failure result \<noteq> None) (enumerate 0 translation_results))"

definition collect_translated :: "chunk list \<Rightarrow> translate_result reply list \<Rightarrow> translated_chunk list" where
  "collect_translated chunk_list translation_results =
     map (\<lambda>(i, result). \<lparr>tc_id = chunk_id (chunk_list ! i),
                          translated_content = tr_translated_content (payload result)\<rparr>)
       (filter (\<lambda>(i, result). failure result = None) (enumerate 0 translation_results))"

definition finish ::
  "agents \<Rightarrow> string \<Rightarrow> notification list \<Rightarrow> log_entry list \<Rightarrow> translated_chunk list \<Rightarrow> run" where
  "finish ags task_id sent logged translated_chunks =
     (case reassemble ags translated_chunks of
        Inl e \<Rightarrow> stop_failed task_id (ProcessingError e) None sent logged
      | Inr reassembly_result \<Rightarrow>
          if failure reassembly_result \<noteq> None
          then stop_failed task_id ReassemblyFailed (Some (ReassemblyDetails reassembly_result)) sent logged
          else (case save_file ags (content (payload reassembly_result)) task_id of
              Inl e \<Rightarrow> stop_failed task_id (ProcessingError e) None sent logged
            | Inr save_result \<Rightarrow>
                if failure save_result \<noteq> None
                then stop_failed task_id SaveFailed (Some (SaveDetails save_result)) sent logged
                else (case generate_url ags (file_path (payload save_result)) task_id of
                    Inl e \<Rightarrow> stop_failed task_id (ProcessingError e) None sent logged
                  | Inr url_result \<Rightarrow>
                      if failure url_result \<noteq> None
                      then stop_failed task_id UrlFailed (Some (UrlDetails url_result)) sent logged
                      else (Completed
                              \<lparr>run_task_id = task_id,
                               run_download_url = download_url (payload url_result),
                               run_subtitle_count = subtitle_count (payload reassembly_result),
                               run_file_size = file_size (payload save_result),
                               run_expiry_time = expiry_time (payload url_result)\<rparr>,
                            sent @ [NotifyCompleted (download_url (payload url_result))],
                            logged))))"

definition process ::
  "agents \<Rightarrow> settings \<Rightarrow> string \<Rightarrow> string \<Rightarrow> string \<Rightarrow> string \<Rightarrow> glossary \<Rightarrow> string option
     \<Rightarrow> int option \<Rightarrow> run" where
  "process ags config srt_content source_lang target_lang task_id glossary engine chunk_size =
     (let engine = (case engine of None \<Rightarrow> AGNO_DEFAULT_ENGINE config | Some name \<Rightarrow> name);
          chunk_size = (case chunk_size of None \<Rightarrow> AGNO_CHUNK_SIZE config | Some n \<Rightarrow> n)
      in case validate ags srt_content of
           Inl e \<Rightarrow> stop_failed task_id (ProcessingError e) None [] []
         | Inr validation_result \<Rightarrow>
             if \<not> valid validation_result
             then stop_failed task_id ValidationFailed (Some (ValidationDetails validation_result)) [] []
             else (case split ags srt_content chunk_size of
                 Inl e \<Rightarrow> stop_failed task_id (ProcessingError e) None [] []
               | Inr splitting_result \<Rightarrow>
                   if failure splitting_result \<noteq> None
                   then stop_failed task_id SplitFailed (Some (SplitDetails splitting_result)) [] []
                   else (let chunk_list = split_chunks (payload splitting_result) in
                         case gather (map (\<lambda>chunk. translate ags (chunk_content chunk) source_lang
                                               target_lang glossary engine) chunk_list) of
                           Inl e \<Rightarrow> stop_failed task_id (ProcessingError e) None [NotifyProcessing] []
                         | Inr translation_results \<Rightarrow>
                             (let translated_chunks = collect_translated chunk_list translation_results;
                                  logged = chunk_failures translation_results
                              in if translated_chunks = []
                                 then stop_failed task_id AllChunksFailed
                                        (Some (TranslationDetails translation_results))
                                        [NotifyProcessing] logged
                                 else finish ags task_id [NotifyProcessing] logged translated_chunks))))"

section \<open>Providers and inputs of the examples\<close>

text \<open>A provider that returns its input, and the tagging provider of the specification's
  example, which returns \<^verbatim>\<open>"[en->zh] " + text\<close>.\<close>

definition identity_provider :: provider where
  "identity_provider text source_lang target_lang = Inr text"

definition tagging_provider :: provider where
  "tagging_provider text source_lang target_lang =
     Inr (''['' @ source_lang @ ''->'' @ target_lang @ ''] '' @ text)"

definition failing_provider :: provider where
  "failing_provider text source_lang target_lang = Inl (ProviderError ''unavailable'')"

text \<open>The two glossary translations of the example, in UTF-8: U+4F60 U+597D and
  U+4E16 U+754C.\<close>

definition nihao :: string where
  "nihao = [CHR 0xE4, CHR 0xBD, CHR 0xA0, CHR 0xE5, CHR 0xA5, CHR 0xBD]"

definition shijie :: string where
  "shijie = [CHR 0xE4, CHR 0xB8, CHR 0x96, CHR 0xE7, CHR 0x95, CHR 0x8C]"

definition hello_srt :: string where
  "hello_srt = ''1\<newline>00:00:01,000 --> 00:00:04,000\<newline>Hello world\<newline>''"

definition hello_glossary :: glossary where
  "hello_glossary = Some [(''Hello'', nihao), (''world'', shijie)]"

text \<open>A run of the workflow on three chunks of one record each. The provider fails on
  the text \<^verbatim>\<open>"boom"\<close> and returns every other text unchanged. The splitter, the writer and the
  address generator are stand-ins that succeed; the validator, the translator agent and
  the reassembler are the modelled ones.\<close>

definition selective_provider :: provider where
  "selective_provider text source_lang target_lang =
     (if text = ''boom'' then Inl (ProviderError ''unavailable'') else Inr text)"

definition example_settings :: settings where
  "example_settings = \<lparr>DEEPSEEK_API_KEY = None, AGNO_DEFAULT_ENGINE = ''mistral'', AGNO_CHUNK_SIZE = 100\<rparr>"






definition example_agents :: "chunk list \<Rightarrow> agents" where
  "example_agents cs =
     \<lparr>validate = (\<lambda>srt_content. Inr (validator_agent_validate srt_content)),
      split = (\<lambda>srt_content chunk_size.
                 Inr \<lparr>payload = \<lparr>split_chunks = cs, total_subtitles = int (length cs)\<rparr>, failure = None\<rparr>),
      translate = (\<lambda>text src tgt gl eng.
                 Inr (translator_agent_translate
                        \<lparr>deepseek_api = selective_provider, mistral_api = selective_provider\<rparr>
                        example_settings text src tgt gl (Some eng))),
      reassemble = (\<lambda>tcs. Inr (reassembler_agent_reassemble tcs True)),
      save_file = (\<lambda>srt_content task_id.
                 Inr \<lparr>payload = \<lparr>file_path = ''data/results/'' @ task_id @ ''.srt'',
                                  file_size = int (length srt_content)\<rparr>,
                      failure = None\<rparr>),
      generate_url = (\<lambda>path task_id.
                 Inr \<lparr>payload = \<lparr>download_url = ''https://cdn.example.com/files/'' @ task_id @ ''.srt'',
                                  expiry_time = ''later''\<rparr>,
                      failure = None\<rparr>)\<rparr>"

text \<open>A document of one record whose text is the line \<^verbatim>\<open>42\<close>, and a document of five
  records.\<close>

definition digits_text_srt :: string where
  "digits_text_srt = ''1\<newline>00:00:01,000 --> 00:00:02,000\<newline>42\<newline>''"

definition five_records :: string where
  "five_records = ''1\<newline>00:00:01,000 --> 00:00:04,000\<newline>one\<newline>\<newline>2\<newline>00:00:05,000 --> 00:00:09,000\<newline>two\<newline>\<newline>3\<newline>00:00:10,000 --> 00:00:14,000\<newline>three\<newline>more\<newline>\<newline>4\<newline>00:00:15,000 --> 00:00:19,000\<newline>four\<newline>\<newline>5\<newline>00:00:20,000 --> 00:00:24,000\<newline>five\<newline>''"

section \<open>The round trip\<close>

text \<open>The round trip of the specification: split the document, translate every chunk
  with the identity provider and without a glossary, and reassemble the translated chunks
  without renumbering. An exception of a stage ends it.\<close>

definition round_trip :: "finditer \<Rightarrow> string \<Rightarrow> int \<Rightarrow> py_error + reassemble_result" where
  "round_trip finditer srt_content chunk_size =
     (case split_srt finditer srt_content chunk_size of
        Inl e \<Rightarrow> Inl e
      | Inr splitting \<Rightarrow>
          (case gather (map (\<lambda>c. translate_chunk
                                  \<lparr>deepseek_api = identity_provider, mistral_api = identity_provider\<rparr>
                                  None (chunk_content c) ''en'' ''zh'' None ''mistral'')
                         (split_chunks splitting)) of
             Inl e \<Rightarrow> Inl e
           | Inr results \<Rightarrow>
               Inr (reassemble_srt
                      (map (\<lambda>(c, r). \<lparr>tc_id = chunk_id c,
                                       translated_content = tr_translated_content r\<rparr>)
                         (zip (split_chunks splitting) results))
                      False)))"

chapter \<open>Properties\<close>

section \<open>The reassembler\<close>

lemma scan_concat:
  "reassemble_scan ls bs cur = (bs', cur') \<Longrightarrow>
   concat bs' @ cur' = concat bs @ cur @ filter (\<lambda>l. l \<noteq> []) (map strip ls)"
proof (induction ls arbitrary: bs cur)
  case Nil
  then show ?case by simp
next
  case (Cons l ls)
  show ?case
  proof (cases "strip l = []")
    case True
    with Cons show ?thesis by (simp add: Let_def)
  next
    case nonblank: False
    show ?thesis
    proof (cases "py_int (strip l)")
      case None
      from Cons.prems nonblank None
      have "reassemble_scan ls bs (cur @ [strip l]) = (bs', cur')" by (simp add: Let_def)
      from Cons.IH[OF this] nonblank show ?thesis by simp
    next
      case (Some n)
      from Cons.prems nonblank Some
      have "reassemble_scan ls (if cur \<noteq> [] then bs @ [cur] else bs) [strip l] = (bs', cur')"
        by (simp add: Let_def)
      from Cons.IH[OF this] nonblank show ?thesis by simp
    qed
  qed
qed

lemma scan_good:
  "reassemble_scan ls bs cur = (bs', cur') \<Longrightarrow> \<forall>b\<in>set bs. good_block b \<Longrightarrow>
   \<forall>l\<in>set (tl cur). py_int l = None \<Longrightarrow>
   (\<forall>b\<in>set bs'. good_block b) \<and> (\<forall>l\<in>set (tl cur'). py_int l = None)"
proof (induction ls arbitrary: bs cur)
  case Nil
  then show ?case by simp
next
  case (Cons l ls)
  show ?case
  proof (cases "strip l = []")
    case True
    with Cons.prems(1) have "reassemble_scan ls bs cur = (bs', cur')" by (simp add: Let_def)
    from Cons.IH[OF this Cons.prems(2) Cons.prems(3)] show ?thesis .
  next
    case nonblank: False
    show ?thesis
    proof (cases "py_int (strip l)")
      case None
      have a: "\<forall>l\<in>set (tl (cur @ [strip l])). py_int l = None"
        using Cons.prems(3) None by (cases cur) simp_all
      from Cons.prems(1) nonblank None
      have "reassemble_scan ls bs (cur @ [strip l]) = (bs', cur')" by (simp add: Let_def)
      from Cons.IH[OF this Cons.prems(2) a] show ?thesis .
    next
      case (Some n)
      have a: "\<forall>b\<in>set (if cur \<noteq> [] then bs @ [cur] else bs). good_block b"
        using Cons.prems(2,3) by (simp add: good_block_def list_all_iff)
      have b: "\<forall>l\<in>set (tl [strip l]). py_int l = None" by simp
      from Cons.prems(1) nonblank Some
      have "reassemble_scan ls (if cur \<noteq> [] then bs @ [cur] else bs) [strip l] = (bs', cur')"
        by (simp add: Let_def)
      from Cons.IH[OF this a b] show ?thesis .
    qed
  qed
qed

lemma scan_count:
  "reassemble_scan ls bs cur = (bs', cur') \<Longrightarrow>
   length bs' + (if cur' \<noteq> [] then 1 else 0) =
   length bs + (if cur \<noteq> [] then 1 else 0)
     + length (filter (\<lambda>l. py_int l \<noteq> None) (filter (\<lambda>l. l \<noteq> []) (map strip ls)))
     + (if cur = [] \<and> filter (\<lambda>l. l \<noteq> []) (map strip ls) \<noteq> []
           \<and> py_int (hd (filter (\<lambda>l. l \<noteq> []) (map strip ls))) = None then 1 else 0)"
proof (induction ls arbitrary: bs cur)
  case Nil
  then show ?case by simp
next
  case (Cons l ls)
  show ?case
  proof (cases "strip l = []")
    case True
    with Cons show ?thesis by (simp add: Let_def)
  next
    case nonblank: False
    show ?thesis
    proof (cases "py_int (strip l)")
      case None
      from Cons.prems nonblank None
      have "reassemble_scan ls bs (cur @ [strip l]) = (bs', cur')" by (simp add: Let_def)
      from Cons.IH[OF this] nonblank None show ?thesis by simp
    next
      case (Some n)
      from Cons.prems nonblank Some
      have "reassemble_scan ls (if cur \<noteq> [] then bs @ [cur] else bs) [strip l] = (bs', cur')"
        by (simp add: Let_def)
      from Cons.IH[OF this] nonblank Some show ?thesis by simp
    qed
  qed
qed

lemma reassemble_blocks_concat: "concat (reassemble_blocks t) = content_lines t"
proof -
  obtain bs cur where s: "reassemble_scan (splitlines t) [] [] = (bs, cur)" by force
  have "concat bs @ cur = content_lines t"
    using scan_concat[OF s] by (simp add: content_lines_def)
  then show ?thesis
    by (cases "cur = []") (simp_all add: reassemble_blocks_def s)
qed

lemma reassemble_blocks_good: "b \<in> set (reassemble_blocks t) \<Longrightarrow> good_block b"
proof -
  assume b: "b \<in> set (reassemble_blocks t)"
  obtain bs cur where s: "reassemble_scan (splitlines t) [] [] = (bs, cur)" by force
  from scan_good[OF s] have "(\<forall>b\<in>set bs. good_block b) \<and> (\<forall>l\<in>set (tl cur). py_int l = None)"
    by simp
  with b show ?thesis
    by (auto simp: reassemble_blocks_def s good_block_def list_all_iff split: if_splits)
qed

lemma reassemble_blocks_count:
  "length (reassemble_blocks t) =
     length (filter (\<lambda>l. py_int l \<noteq> None) (content_lines t))
     + (if content_lines t \<noteq> [] \<and> py_int (hd (content_lines t)) = None then 1 else 0)"
proof -
  obtain bs cur where s: "reassemble_scan (splitlines t) [] [] = (bs, cur)" by force
  define L where "L = content_lines t"
  have "length bs + (if cur \<noteq> [] then 1 else 0) =
     length (filter (\<lambda>l. py_int l \<noteq> None) L)
     + (if L \<noteq> [] \<and> py_int (hd L) = None then 1 else 0)"
    using scan_count[OF s] unfolding L_def content_lines_def by simp
  moreover have "length (reassemble_blocks t) = length bs + (if cur \<noteq> [] then 1 else 0)"
    by (simp add: reassemble_blocks_def s)
  ultimately show ?thesis unfolding L_def by simp
qed


lemma sort_key_perm_distinct:
  assumes "distinct (map tc_id chunks)" and "mset chunks' = mset chunks"
  shows "sort_key tc_id chunks' = sort_key tc_id chunks"
proof (rule sort_key_inj_key_eq)
  show "mset chunks' = mset (sort_key tc_id chunks)" using assms(2) by simp
  have "set chunks' = set chunks" using assms(2) by (rule mset_eq_setD)
  moreover have "inj_on tc_id (set chunks)" using assms(1) by (simp add: distinct_map)
  ultimately show "inj_on tc_id (set chunks')" by simp
  show "sorted (map tc_id (sort_key tc_id chunks))" by (rule sorted_sort_key)
qed

lemma length_all_subtitles:
  "length (all_subtitles chunks) = (\<Sum>c\<leftarrow>chunks. length (reassemble_blocks (translated_content c)))"
proof -
  let ?g = "\<lambda>c. length (reassemble_blocks (translated_content c))"
  have "length (all_subtitles chunks) = sum_list (map ?g (sort_key tc_id chunks))"
    by (simp add: all_subtitles_def length_concat comp_def)
  also have "\<dots> = sum_mset (image_mset ?g (mset (sort_key tc_id chunks)))"
    by (metis mset_map sum_mset_sum_list)
  also have "\<dots> = sum_mset (image_mset ?g (mset chunks))" by simp
  also have "\<dots> = sum_list (map ?g chunks)"
    by (metis mset_map sum_mset_sum_list)
  finally show ?thesis .
qed

text \<open>
  C5. For translated chunks with pairwise distinct ids, \<^verbatim>\<open>reassemble_srt\<close> gives the same
  content and the same subtitle count for every permutation of the list of chunks, and the
  count is the number of records that the chunks hold, whatever their order.
\<close>

theorem reassemble_order_independent:
  assumes "distinct (map tc_id chunks)" and "mset chunks' = mset chunks"
  shows "reassemble_srt chunks' normalize_ids = reassemble_srt chunks normalize_ids
       \<and> subtitle_count (reassemble_srt chunks' normalize_ids)
           = int (\<Sum>c\<leftarrow>chunks'. length (reassemble_blocks (translated_content c)))"
proof -
  have "all_subtitles chunks' = all_subtitles chunks"
    using sort_key_perm_distinct[OF assms] by (simp add: all_subtitles_def)
  then have "reassemble_srt chunks' normalize_ids = reassemble_srt chunks normalize_ids"
    by (simp add: reassemble_srt_def final_subtitles_def)
  moreover have "subtitle_count (reassemble_srt chunks' normalize_ids)
           = int (\<Sum>c\<leftarrow>chunks'. length (reassemble_blocks (translated_content c)))"
    by (simp add: reassemble_srt_def length_all_subtitles)
  ultimately show ?thesis by simp
qed

theorem reassemble_order_independent_witness:
  "distinct (map tc_id [\<lparr>tc_id = 1, translated_content = ''3\<newline>t1\<newline>a\<newline>''\<rparr>,
                        \<lparr>tc_id = 2, translated_content = ''7\<newline>t2\<newline>b''\<rparr>])
   \<and> mset [\<lparr>tc_id = 2, translated_content = ''7\<newline>t2\<newline>b''\<rparr>,
            \<lparr>tc_id = 1, translated_content = ''3\<newline>t1\<newline>a\<newline>''\<rparr>]
       = mset [\<lparr>tc_id = 1, translated_content = ''3\<newline>t1\<newline>a\<newline>''\<rparr>,
               \<lparr>tc_id = 2, translated_content = ''7\<newline>t2\<newline>b''\<rparr>]
   \<and> reassemble_srt [\<lparr>tc_id = 2, translated_content = ''7\<newline>t2\<newline>b''\<rparr>,
                      \<lparr>tc_id = 1, translated_content = ''3\<newline>t1\<newline>a\<newline>''\<rparr>] False
       = reassemble_srt [\<lparr>tc_id = 1, translated_content = ''3\<newline>t1\<newline>a\<newline>''\<rparr>,
                         \<lparr>tc_id = 2, translated_content = ''7\<newline>t2\<newline>b''\<rparr>] False
   \<and> reassemble_srt [\<lparr>tc_id = 2, translated_content = ''7\<newline>t2\<newline>b''\<rparr>,
                      \<lparr>tc_id = 1, translated_content = ''3\<newline>t1\<newline>a\<newline>''\<rparr>] False
       = \<lparr>content = ''3\<newline>t1\<newline>a\<newline>\<newline>7\<newline>t2\<newline>b'', subtitle_count = 2\<rparr>"
proof -
  let ?c1 = "\<lparr>tc_id = 1, translated_content = ''3\<newline>t1\<newline>a\<newline>''\<rparr>"
  let ?c2 = "\<lparr>tc_id = 2, translated_content = ''7\<newline>t2\<newline>b''\<rparr>"
  have d: "distinct (map tc_id [?c1, ?c2])" by simp
  have m: "mset [?c2, ?c1] = mset [?c1, ?c2]" by simp
  have e: "reassemble_srt [?c2, ?c1] False
       = \<lparr>content = ''3\<newline>t1\<newline>a\<newline>\<newline>7\<newline>t2\<newline>b'', subtitle_count = 2\<rparr>"
    by code_simp
  from reassemble_order_independent[OF d m, of False] d m e show ?thesis by simp
qed






theorem normalized_ids_sequential_example:
  "reassemble_srt [\<lparr>tc_id = 2, translated_content = ''7\<newline>t2\<newline>b''\<rparr>,
                   \<lparr>tc_id = 1, translated_content = ''3\<newline>t1\<newline>a\<newline>''\<rparr>] True
     = \<lparr>content = ''1\<newline>t1\<newline>a\<newline>\<newline>2\<newline>t2\<newline>b'', subtitle_count = 2\<rparr>"
  by code_simp

section \<open>The translator\<close>

lemma translate_blocks_calls_prefix:
  "prefix (fst (translate_blocks apis key engine src tgt glossary blocks))
     (map block_text (filter (\<lambda>b. \<not> malformed b) blocks))"
proof (induction blocks)
  case Nil
  show ?case by simp
next
  case (Cons b bs)
  obtain calls r where rec: "translate_blocks apis key engine src tgt glossary bs = (calls, r)"
    by force
  with Cons have p: "prefix calls (map block_text (filter (\<lambda>b. \<not> malformed b) bs))" by simp
  show ?case
  proof (cases "malformed b")
    case True
    with rec p show ?thesis
      by (cases r) (auto simp: malformed_def split: prod.splits)
  next
    case False
    with rec p show ?thesis
      by (cases r; cases "translate_text apis key engine (block_text b) src tgt glossary")
         (auto simp: malformed_def Let_def split: prod.splits)
  qed
qed

lemma translate_blocks_success:
  "translate_blocks apis key engine src tgt glossary blocks = (calls, Inr (outs, ms)) \<Longrightarrow>
   calls = map block_text (filter (\<lambda>b. \<not> malformed b) blocks)
   \<and> length outs = length blocks
   \<and> (\<forall>i<length blocks. malformed (blocks ! i) \<longrightarrow> outs ! i = blocks ! i)"
proof (induction blocks arbitrary: calls outs ms)
  case Nil
  then show ?case by simp
next
  case (Cons b bs)
  obtain calls' r where rec: "translate_blocks apis key engine src tgt glossary bs = (calls', r)"
    by force
  show ?case
  proof (cases "malformed b")
    case True
    with Cons.prems rec obtain outs' where
      r: "r = Inr (outs', ms)" and o: "outs = b # outs'" and c: "calls = calls'"
      by (cases r) (auto simp: malformed_def split: prod.splits)
    from Cons.IH[OF rec[unfolded r]] have ih:
      "calls' = map block_text (filter (\<lambda>b. \<not> malformed b) bs)"
      "length outs' = length bs"
      "\<forall>i<length bs. malformed (bs ! i) \<longrightarrow> outs' ! i = bs ! i" by simp_all
    show ?thesis
      using True o c ih by (auto simp: nth_Cons split: nat.splits)
  next
    case False
    with Cons.prems rec obtain tt outs' ms' where
      t: "translate_text apis key engine (block_text b) src tgt glossary = Inr tt" and
      r: "r = Inr (outs', ms')" and o: "outs = translated_block b tt # outs'" and
      c: "calls = block_text b # calls'"
      by (cases r; cases "translate_text apis key engine (block_text b) src tgt glossary")
         (auto simp: malformed_def Let_def split: prod.splits)
    from Cons.IH[OF rec[unfolded r]] have ih:
      "calls' = map block_text (filter (\<lambda>b. \<not> malformed b) bs)"
      "length outs' = length bs"
      "\<forall>i<length bs. malformed (bs ! i) \<longrightarrow> outs' ! i = bs ! i" by simp_all
    show ?thesis
      using False o c ih by (auto simp: nth_Cons split: nat.splits)
  qed
qed

lemma translate_blocks_all_malformed:
  "\<forall>b\<in>set blocks. malformed b \<Longrightarrow>
   translate_blocks apis key engine src tgt glossary blocks = ([], Inr (blocks, []))"
  by (induction blocks) (auto simp: malformed_def)

text \<open>
  C7. Every record of a chunk that has fewer than two lines after its number line is in
  the translated output as it was parsed, and no provider is invoked for it: the texts
  handed to a provider are, in order, texts of the other records only (all of them when
  the translation succeeds), and a chunk of such records alone is translated without any
  call, whatever the provider does.
\<close>

theorem malformed_records_pass_through:
  "prefix (translate_chunk_calls apis key chunk_text source_lang target_lang glossary engine)
     (map block_text (filter (\<lambda>b. \<not> malformed b) (parse_chunk chunk_text)))
   \<and> (\<forall>result. translate_chunk apis key chunk_text source_lang target_lang glossary engine = Inr result \<longrightarrow>
        (\<exists>outs. tr_translated_content result = join ''\<newline>\<newline>'' (map block_content outs)
           \<and> length outs = length (parse_chunk chunk_text)
           \<and> (\<forall>i<length (parse_chunk chunk_text).
                 malformed (parse_chunk chunk_text ! i) \<longrightarrow> outs ! i = parse_chunk chunk_text ! i)
           \<and> translate_chunk_calls apis key chunk_text source_lang target_lang glossary engine
               = map block_text (filter (\<lambda>b. \<not> malformed b) (parse_chunk chunk_text))))
   \<and> ((\<forall>b\<in>set (parse_chunk chunk_text). malformed b) \<longrightarrow>
        translate_chunk_calls apis key chunk_text source_lang target_lang glossary engine = []
        \<and> translate_chunk apis key chunk_text source_lang target_lang glossary engine
            = Inr \<lparr>tr_translated_content = join ''\<newline>\<newline>'' (map block_content (parse_chunk chunk_text)),
                   tr_engine = engine, tr_glossary_matches = []\<rparr>)"
proof (intro conjI allI impI)
  show "prefix (translate_chunk_calls apis key chunk_text source_lang target_lang glossary engine)
     (map block_text (filter (\<lambda>b. \<not> malformed b) (parse_chunk chunk_text)))"
    unfolding translate_chunk_calls_def by (rule translate_blocks_calls_prefix)
next
  fix result
  assume ok: "translate_chunk apis key chunk_text source_lang target_lang glossary engine = Inr result"
  obtain calls r where tb:
    "translate_blocks apis key engine source_lang target_lang glossary (parse_chunk chunk_text) = (calls, r)"
    by force
  from ok tb obtain outs ms where r: "r = Inr (outs, ms)"
    and res: "tr_translated_content result = join ''\<newline>\<newline>'' (map block_content outs)"
    by (cases r) (auto simp: translate_chunk_def)
  from translate_blocks_success[OF tb[unfolded r]] tb res
  show "\<exists>outs. tr_translated_content result = join ''\<newline>\<newline>'' (map block_content outs)
           \<and> length outs = length (parse_chunk chunk_text)
           \<and> (\<forall>i<length (parse_chunk chunk_text).
                 malformed (parse_chunk chunk_text ! i) \<longrightarrow> outs ! i = parse_chunk chunk_text ! i)
           \<and> translate_chunk_calls apis key chunk_text source_lang target_lang glossary engine
               = map block_text (filter (\<lambda>b. \<not> malformed b) (parse_chunk chunk_text))"
    by (intro exI[of _ outs]) (simp add: translate_chunk_calls_def)
next
  assume "\<forall>b\<in>set (parse_chunk chunk_text). malformed b"
  from translate_blocks_all_malformed[OF this]
  show "translate_chunk_calls apis key chunk_text source_lang target_lang glossary engine = []"
    by (simp add: translate_chunk_calls_def)
next
  assume "\<forall>b\<in>set (parse_chunk chunk_text). malformed b"
  from translate_blocks_all_malformed[OF this]
  show "translate_chunk apis key chunk_text source_lang target_lang glossary engine
            = Inr \<lparr>tr_translated_content = join ''\<newline>\<newline>'' (map block_content (parse_chunk chunk_text)),
                   tr_engine = engine, tr_glossary_matches = []\<rparr>"
    by (simp add: translate_chunk_def)
qed

theorem malformed_records_pass_through_witness:
  "translate_chunk placeholder_engines None
      ''1\<newline>00:00:01,000 --> 00:00:04,000\<newline>Hello world\<newline>\<newline>2\<newline>00:00:05,000 --> 00:00:09,000\<newline>''
      ''en'' ''zh'' None ''mistral''
     = Inr \<lparr>tr_translated_content =
              ''1\<newline>00:00:01,000 --> 00:00:04,000\<newline>[Mistral: en -> zh] Hello world\<newline>\<newline>2\<newline>00:00:05,000 --> 00:00:09,000'',
            tr_engine = ''mistral'', tr_glossary_matches = []\<rparr>
   \<and> map malformed (parse_chunk
      ''1\<newline>00:00:01,000 --> 00:00:04,000\<newline>Hello world\<newline>\<newline>2\<newline>00:00:05,000 --> 00:00:09,000\<newline>'')
     = [False, True]
   \<and> translate_chunk_calls placeholder_engines None
      ''1\<newline>00:00:01,000 --> 00:00:04,000\<newline>Hello world\<newline>\<newline>2\<newline>00:00:05,000 --> 00:00:09,000\<newline>''
      ''en'' ''zh'' None ''mistral'' = [''Hello world'']
   \<and> list_all malformed (parse_chunk ''2\<newline>00:00:05,000 --> 00:00:09,000\<newline>'')
   \<and> translate_chunk_calls \<lparr>deepseek_api = failing_provider, mistral_api = failing_provider\<rparr> None
      ''2\<newline>00:00:05,000 --> 00:00:09,000\<newline>'' ''en'' ''zh'' None ''mistral'' = []
   \<and> translate_chunk \<lparr>deepseek_api = failing_provider, mistral_api = failing_provider\<rparr> None
      ''2\<newline>00:00:05,000 --> 00:00:09,000\<newline>'' ''en'' ''zh'' None ''mistral''
     = Inr \<lparr>tr_translated_content = ''2\<newline>00:00:05,000 --> 00:00:09,000'',
            tr_engine = ''mistral'', tr_glossary_matches = []\<rparr>"
proof -
  let ?doc = "''1\<newline>00:00:01,000 --> 00:00:04,000\<newline>Hello world\<newline>\<newline>2\<newline>00:00:05,000 --> 00:00:09,000\<newline>''"
  let ?short = "''2\<newline>00:00:05,000 --> 00:00:09,000\<newline>''"
  let ?bad = "\<lparr>deepseek_api = failing_provider, mistral_api = failing_provider\<rparr>"
  have ok: "translate_chunk placeholder_engines None ?doc ''en'' ''zh'' None ''mistral''
     = Inr \<lparr>tr_translated_content =
              ''1\<newline>00:00:01,000 --> 00:00:04,000\<newline>[Mistral: en -> zh] Hello world\<newline>\<newline>2\<newline>00:00:05,000 --> 00:00:09,000'',
            tr_engine = ''mistral'', tr_glossary_matches = []\<rparr>"
    by code_simp
  have m: "map malformed (parse_chunk ?doc) = [False, True]" by code_simp
  have t: "map block_text (filter (\<lambda>b. \<not> malformed b) (parse_chunk ?doc)) = [''Hello world'']"
    by code_simp
  have s: "list_all malformed (parse_chunk ?short)" by code_simp
  have j: "join ''\<newline>\<newline>'' (map block_content (parse_chunk ?short)) = ''2\<newline>00:00:05,000 --> 00:00:09,000''"
    by code_simp
  note thm1 = malformed_records_pass_through[of placeholder_engines None ?doc "''en''" "''zh''" None "''mistral''"]
  note thm2 = malformed_records_pass_through[of ?bad None ?short "''en''" "''zh''" None "''mistral''"]
  from thm1 ok t have c: "translate_chunk_calls placeholder_engines None ?doc ''en'' ''zh'' None ''mistral'' = [''Hello world'']"
    by auto
  from thm2 s j have d: "translate_chunk_calls ?bad None ?short ''en'' ''zh'' None ''mistral'' = []
    \<and> translate_chunk ?bad None ?short ''en'' ''zh'' None ''mistral''
     = Inr \<lparr>tr_translated_content = ''2\<newline>00:00:05,000 --> 00:00:09,000'',
            tr_engine = ''mistral'', tr_glossary_matches = []\<rparr>"
    by (simp add: list_all_iff)
  from ok m c s d show ?thesis by simp
qed

text \<open>
  C8. The example of the specification: the document of one record "Hello world", the
  glossary Hello, world and the provider that returns \<^verbatim>\<open>"[en->zh] "\<close> and the text. The
  translated text holds both translations, and one match is recorded for each of the two
  terms. The tagging of the source itself (\<^verbatim>\<open>"[en -> zh] "\<close>) gives the same but for the tag.
\<close>

theorem glossary_example:
  "translate_chunk \<lparr>deepseek_api = tagging_provider, mistral_api = tagging_provider\<rparr> None
      hello_srt ''en'' ''zh'' hello_glossary ''deepseek''
     = Inr \<lparr>tr_translated_content =
              ''1\<newline>00:00:01,000 --> 00:00:04,000\<newline>[en->zh] '' @ nihao @ '' '' @ shijie,
            tr_engine = ''deepseek'',
            tr_glossary_matches =
              [\<lparr>gm_subtitle_id = ''1'', gm_term = ''Hello'', gm_translation = nihao\<rparr>,
               \<lparr>gm_subtitle_id = ''1'', gm_term = ''world'', gm_translation = shijie\<rparr>]\<rparr>
   \<and> contains nihao (''1\<newline>00:00:01,000 --> 00:00:04,000\<newline>[en->zh] '' @ nihao @ '' '' @ shijie)
   \<and> contains shijie (''1\<newline>00:00:01,000 --> 00:00:04,000\<newline>[en->zh] '' @ nihao @ '' '' @ shijie)
   \<and> translate_chunk placeholder_engines None hello_srt ''en'' ''zh'' hello_glossary ''deepseek''
     = Inr \<lparr>tr_translated_content =
              ''1\<newline>00:00:01,000 --> 00:00:04,000\<newline>[en -> zh] '' @ nihao @ '' '' @ shijie,
            tr_engine = ''deepseek'',
            tr_glossary_matches =
              [\<lparr>gm_subtitle_id = ''1'', gm_term = ''Hello'', gm_translation = nihao\<rparr>,
               \<lparr>gm_subtitle_id = ''1'', gm_term = ''world'', gm_translation = shijie\<rparr>]\<rparr>"
  by code_simp

section \<open>The validator\<close>

declare validate_loop.simps [simp del] id_lines.simps [simp del]









section \<open>The file writer\<close>

lemma os_path_join_plain:
  assumes "output_dir \<noteq> []" and "last output_dir \<noteq> CHR ''/''" and "take 1 task_id \<noteq> ''/''"
  shows "os_path_join output_dir (task_id @ ''.srt'') = output_dir @ ''/'' @ task_id @ ''.srt''"
proof -
  have "take 1 (task_id @ ''.srt'') \<noteq> ''/''"
    using assms(3) by (cases task_id) auto
  with assms(1,2) show ?thesis by (simp add: os_path_join_def)
qed

lemma cleanup_result:
  "cleanup faults tmp e files events = (result, files', events') \<Longrightarrow>
     (\<exists>e'. result = Inl e')
   \<and> (\<not> remove_fails faults \<longrightarrow> files' tmp = None)
   \<and> (\<forall>p. p \<noteq> tmp \<longrightarrow> files' p = files p)
   \<and> (events' = events \<or> events' = events @ [Remove tmp])"
  by (auto simp: cleanup_def split: if_splits)

text \<open>
  C9. Saving to a directory \<open>output_dir\<close> under the name \<open>task_id\<close>, with
  \<open>final = output_dir/task_id.srt\<close> and \<open>tmp = final.tmp\<close>: a save that returns has opened
  \<open>tmp\<close>, written the whole content to it and then renamed it to \<open>final\<close>, in this order, and
  \<open>final\<close> holds the content; a rename never happens before the whole content is written.
  When a step after the creation of the directory fails, the error is raised after the
  temporary file has been removed (provided that the removal itself does not fail). In
  every case \<open>final\<close> holds what it held before or the whole content, and no other file but
  \<open>tmp\<close> is changed.
\<close>

theorem save_is_write_then_rename:
  assumes "output_dir \<noteq> []" and "last output_dir \<noteq> CHR ''/''" and "take 1 task_id \<noteq> ''/''"
    and "save_srt_file faults srt_content task_id output_dir files = (result, files', events)"
  shows "(\<forall>saved. result = Inr saved \<longrightarrow>
            saved = \<lparr>file_path = output_dir @ ''/'' @ task_id @ ''.srt'',
                     file_size = int (length srt_content)\<rparr>
          \<and> events = [OpenForWrite (output_dir @ ''/'' @ task_id @ ''.srt.tmp''),
                       WriteData (output_dir @ ''/'' @ task_id @ ''.srt.tmp'') srt_content,
                       Rename (output_dir @ ''/'' @ task_id @ ''.srt.tmp'')
                              (output_dir @ ''/'' @ task_id @ ''.srt'')]
          \<and> files' (output_dir @ ''/'' @ task_id @ ''.srt'') = Some srt_content
          \<and> files' (output_dir @ ''/'' @ task_id @ ''.srt.tmp'') = None)
       \<and> (\<not> makedirs_fails faults \<and> \<not> open_fails faults \<and> write_fails faults = None
            \<and> \<not> rename_fails faults \<and> \<not> getsize_fails faults \<longrightarrow> (\<exists>saved. result = Inr saved))
       \<and> (Rename (output_dir @ ''/'' @ task_id @ ''.srt.tmp'') (output_dir @ ''/'' @ task_id @ ''.srt'')
              \<in> set events \<longrightarrow>
            take 3 events = [OpenForWrite (output_dir @ ''/'' @ task_id @ ''.srt.tmp''),
                       WriteData (output_dir @ ''/'' @ task_id @ ''.srt.tmp'') srt_content,
                       Rename (output_dir @ ''/'' @ task_id @ ''.srt.tmp'')
                              (output_dir @ ''/'' @ task_id @ ''.srt'')])
       \<and> ((\<exists>e. result = Inl e) \<and> \<not> makedirs_fails faults \<and> \<not> remove_fails faults \<longrightarrow>
            files' (output_dir @ ''/'' @ task_id @ ''.srt.tmp'') = None)
       \<and> (files' (output_dir @ ''/'' @ task_id @ ''.srt'') = files (output_dir @ ''/'' @ task_id @ ''.srt'')
            \<or> files' (output_dir @ ''/'' @ task_id @ ''.srt'') = Some srt_content)
       \<and> (\<forall>p. p \<noteq> output_dir @ ''/'' @ task_id @ ''.srt'' \<and> p \<noteq> output_dir @ ''/'' @ task_id @ ''.srt.tmp''
              \<longrightarrow> files' p = files p)"
proof -
  define final where "final = output_dir @ ''/'' @ task_id @ ''.srt''"
  define tmp where "tmp = final @ ''.tmp''"
  have j: "os_path_join output_dir (task_id @ ''.srt'') = final"
    unfolding final_def by (rule os_path_join_plain[OF assms(1-3)])
  have t: "output_dir @ ''/'' @ task_id @ ''.srt.tmp'' = tmp"
    by (simp add: tmp_def final_def)
  have ne: "tmp \<noteq> final" by (simp add: tmp_def)
  have run: "save_srt_file faults srt_content task_id output_dir files = (result, files', events)"
    by (rule assms(4))
  show ?thesis
    unfolding t final_def[symmetric]
  proof (cases "makedirs_fails faults")
    case True
    with run show "(\<forall>saved. result = Inr saved \<longrightarrow>
            saved = \<lparr>file_path = final, file_size = int (length srt_content)\<rparr>
          \<and> events = [OpenForWrite tmp, WriteData tmp srt_content, Rename tmp final]
          \<and> files' final = Some srt_content \<and> files' tmp = None)
       \<and> (\<not> makedirs_fails faults \<and> \<not> open_fails faults \<and> write_fails faults = None
            \<and> \<not> rename_fails faults \<and> \<not> getsize_fails faults \<longrightarrow> (\<exists>saved. result = Inr saved))
       \<and> (Rename tmp final \<in> set events \<longrightarrow>
            take 3 events = [OpenForWrite tmp, WriteData tmp srt_content, Rename tmp final])
       \<and> ((\<exists>e. result = Inl e) \<and> \<not> makedirs_fails faults \<and> \<not> remove_fails faults \<longrightarrow> files' tmp = None)
       \<and> (files' final = files final \<or> files' final = Some srt_content)
       \<and> (\<forall>p. p \<noteq> final \<and> p \<noteq> tmp \<longrightarrow> files' p = files p)"
      by (auto simp: save_srt_file_def)
  next
    case md: False
    show "(\<forall>saved. result = Inr saved \<longrightarrow>
            saved = \<lparr>file_path = final, file_size = int (length srt_content)\<rparr>
          \<and> events = [OpenForWrite tmp, WriteData tmp srt_content, Rename tmp final]
          \<and> files' final = Some srt_content \<and> files' tmp = None)
       \<and> (\<not> makedirs_fails faults \<and> \<not> open_fails faults \<and> write_fails faults = None
            \<and> \<not> rename_fails faults \<and> \<not> getsize_fails faults \<longrightarrow> (\<exists>saved. result = Inr saved))
       \<and> (Rename tmp final \<in> set events \<longrightarrow>
            take 3 events = [OpenForWrite tmp, WriteData tmp srt_content, Rename tmp final])
       \<and> ((\<exists>e. result = Inl e) \<and> \<not> makedirs_fails faults \<and> \<not> remove_fails faults \<longrightarrow> files' tmp = None)
       \<and> (files' final = files final \<or> files' final = Some srt_content)
       \<and> (\<forall>p. p \<noteq> final \<and> p \<noteq> tmp \<longrightarrow> files' p = files p)"
    proof (cases "open_fails faults")
      case True
      with run md j have c: "cleanup faults tmp (OSError ''open'') files [] = (result, files', events)"
        by (simp add: save_srt_file_def Let_def tmp_def)
      from cleanup_result[OF c] ne True show ?thesis by auto
    next
      case op: False
      show ?thesis
      proof (cases "write_fails faults")
        case (Some n)
        with run md op j have c: "cleanup faults tmp (OSError ''write'')
            (files(tmp \<mapsto> take n srt_content))
            [OpenForWrite tmp, WriteData tmp (take n srt_content)] = (result, files', events)"
          by (simp add: save_srt_file_def Let_def tmp_def)
        from cleanup_result[OF c] ne Some show ?thesis by auto
      next
        case None
        show ?thesis
        proof (cases "rename_fails faults")
          case True
          with run md op None j have c: "cleanup faults tmp (OSError ''rename'')
              (files(tmp \<mapsto> srt_content))
              [OpenForWrite tmp, WriteData tmp srt_content] = (result, files', events)"
            by (simp add: save_srt_file_def Let_def tmp_def)
          from cleanup_result[OF c] ne True show ?thesis by auto
        next
          case rn: False
          show ?thesis
          proof (cases "getsize_fails faults")
            case True
            with run md op None rn j have c: "cleanup faults tmp (OSError ''getsize'')
                ((files(tmp := None))(final \<mapsto> srt_content))
                [OpenForWrite tmp, WriteData tmp srt_content, Rename tmp final] = (result, files', events)"
              by (simp add: save_srt_file_def Let_def tmp_def)
            from cleanup_result[OF c] ne True show ?thesis by auto
          next
            case False
            with run md op None rn j ne show ?thesis
              by (auto simp: save_srt_file_def Let_def tmp_def)
          qed
        qed
      qed
    qed
  qed
qed

theorem save_is_write_then_rename_witness:
  "''data/results'' \<noteq> [] \<and> last ''data/results'' \<noteq> CHR ''/'' \<and> take 1 ''job1'' \<noteq> ''/''
   \<and> (case save_srt_file (no_faults\<lparr>write_fails := Some 2\<rparr>) ''abc'' ''job1'' ''data/results''
            [''data/results/job1.srt'' \<mapsto> ''old''] of
         (result, files', events) \<Rightarrow>
           result = Inl (OSError ''write'')
           \<and> events = [OpenForWrite ''data/results/job1.srt.tmp'',
                        WriteData ''data/results/job1.srt.tmp'' ''ab'',
                        Remove ''data/results/job1.srt.tmp'']
           \<and> files' ''data/results/job1.srt.tmp'' = None
           \<and> files' ''data/results/job1.srt'' = Some ''old'')
   \<and> (case save_srt_file no_faults ''abc'' ''job1'' ''data/results''
            [''data/results/job1.srt'' \<mapsto> ''old''] of
         (result, files', events) \<Rightarrow>
           result = Inr \<lparr>file_path = ''data/results/job1.srt'', file_size = 3\<rparr>
           \<and> events = [OpenForWrite ''data/results/job1.srt.tmp'',
                        WriteData ''data/results/job1.srt.tmp'' ''abc'',
                        Rename ''data/results/job1.srt.tmp'' ''data/results/job1.srt'']
           \<and> files' ''data/results/job1.srt.tmp'' = None
           \<and> files' ''data/results/job1.srt'' = Some ''abc'')"
proof -
  let ?old = "[''data/results/job1.srt'' \<mapsto> ''old'']"
  let ?bad = "no_faults\<lparr>write_fails := Some 2\<rparr>"
  have h1: "''data/results'' \<noteq> []" by simp
  have h2: "last ''data/results'' \<noteq> CHR ''/''" by simp
  have h3: "take 1 ''job1'' \<noteq> ''/''" by simp
  have p1: "''data/results'' @ ''/'' @ ''job1'' @ ''.srt.tmp'' = ''data/results/job1.srt.tmp''" by simp
  have p2: "''data/results'' @ ''/'' @ ''job1'' @ ''.srt'' = ''data/results/job1.srt''" by simp
  have p3: "int (length ''abc'') = 3" by simp
  obtain r f e where run: "save_srt_file ?bad ''abc'' ''job1'' ''data/results'' ?old = (r, f, e)"
    using prod_cases3 by blast
  have "fst (save_srt_file ?bad ''abc'' ''job1'' ''data/results'' ?old) = Inl (OSError ''write'')"
    by code_simp
  then have r: "r = Inl (OSError ''write'')" unfolding run by simp
  have "snd (snd (save_srt_file ?bad ''abc'' ''job1'' ''data/results'' ?old))
        = [OpenForWrite ''data/results/job1.srt.tmp'',
           WriteData ''data/results/job1.srt.tmp'' ''ab'',
           Remove ''data/results/job1.srt.tmp'']"
    by code_simp
  then have e: "e = [OpenForWrite ''data/results/job1.srt.tmp'',
           WriteData ''data/results/job1.srt.tmp'' ''ab'',
           Remove ''data/results/job1.srt.tmp'']" unfolding run by simp
  have "fst (snd (save_srt_file ?bad ''abc'' ''job1'' ''data/results'' ?old)) ''data/results/job1.srt''
        = Some ''old''"
    by code_simp
  then have fin: "f ''data/results/job1.srt'' = Some ''old''" unfolding run by simp
  have nf: "\<not> makedirs_fails ?bad" "\<not> remove_fails ?bad" by (simp_all add: no_faults_def)
  note th = save_is_write_then_rename[OF h1 h2 h3 run]
  from th have "(\<exists>e. r = Inl e) \<and> \<not> makedirs_fails ?bad \<and> \<not> remove_fails ?bad \<longrightarrow>
            f (''data/results'' @ ''/'' @ ''job1'' @ ''.srt.tmp'') = None"
    by blast
  with r nf have tmp: "f ''data/results/job1.srt.tmp'' = None" unfolding p1 by blast
  obtain r' f' e' where run': "save_srt_file no_faults ''abc'' ''job1'' ''data/results'' ?old = (r', f', e')"
    using prod_cases3 by blast
  have nf': "\<not> makedirs_fails no_faults \<and> \<not> open_fails no_faults \<and> write_fails no_faults = None
            \<and> \<not> rename_fails no_faults \<and> \<not> getsize_fails no_faults" by (simp add: no_faults_def)
  note th' = save_is_write_then_rename[OF h1 h2 h3 run']
  from th' nf' obtain saved where s: "r' = Inr saved" by blast
  from th' s have "saved = \<lparr>file_path = ''data/results'' @ ''/'' @ ''job1'' @ ''.srt'',
                     file_size = int (length ''abc'')\<rparr>
          \<and> e' = [OpenForWrite (''data/results'' @ ''/'' @ ''job1'' @ ''.srt.tmp''),
                       WriteData (''data/results'' @ ''/'' @ ''job1'' @ ''.srt.tmp'') ''abc'',
                       Rename (''data/results'' @ ''/'' @ ''job1'' @ ''.srt.tmp'')
                              (''data/results'' @ ''/'' @ ''job1'' @ ''.srt'')]
          \<and> f' (''data/results'' @ ''/'' @ ''job1'' @ ''.srt'') = Some ''abc''
          \<and> f' (''data/results'' @ ''/'' @ ''job1'' @ ''.srt.tmp'') = None"
    by blast
  then have ok: "r' = Inr \<lparr>file_path = ''data/results/job1.srt'', file_size = 3\<rparr>
     \<and> e' = [OpenForWrite ''data/results/job1.srt.tmp'',
                        WriteData ''data/results/job1.srt.tmp'' ''abc'',
                        Rename ''data/results/job1.srt.tmp'' ''data/results/job1.srt'']
     \<and> f' ''data/results/job1.srt.tmp'' = None
     \<and> f' ''data/results/job1.srt'' = Some ''abc''"
    unfolding p1 p2 p3 using s by blast
  have a: "case (r, f, e) of (result, files', events) \<Rightarrow>
           result = Inl (OSError ''write'')
           \<and> events = [OpenForWrite ''data/results/job1.srt.tmp'',
                        WriteData ''data/results/job1.srt.tmp'' ''ab'',
                        Remove ''data/results/job1.srt.tmp'']
           \<and> files' ''data/results/job1.srt.tmp'' = None
           \<and> files' ''data/results/job1.srt'' = Some ''old''"
    using r e tmp fin by (simp only: prod.case)
  have b: "case (r', f', e') of (result, files', events) \<Rightarrow>
           result = Inr \<lparr>file_path = ''data/results/job1.srt'', file_size = 3\<rparr>
           \<and> events = [OpenForWrite ''data/results/job1.srt.tmp'',
                        WriteData ''data/results/job1.srt.tmp'' ''abc'',
                        Rename ''data/results/job1.srt.tmp'' ''data/results/job1.srt'']
           \<and> files' ''data/results/job1.srt.tmp'' = None
           \<and> files' ''data/results/job1.srt'' = Some ''abc''"
    using ok by (simp only: prod.case)
  show ?thesis
    unfolding run run' using h1 h2 h3 a b by blast
qed

section \<open>The workflow\<close>












section \<open>Lines of digits in a subtitle text\<close>

text \<open>
  C10. The lines of a chunk, stripped and without the blank ones, are cut into records so
  that every line that \<^verbatim>\<open>int()\<close> accepts starts a record: no record has such a line after
  its first line, and the number of records is the number of such lines (and one more when
  the chunk starts with another line). So a text line of digits starts a record of its
  own: the document of one record with the text \<^verbatim>\<open>42\<close>, which the validator accepts as one
  record, is reassembled as two records, and with \<^verbatim>\<open>normalize_ids = True\<close> the text \<^verbatim>\<open>42\<close> is
  overwritten with the number \<^verbatim>\<open>2\<close>.
\<close>

theorem integer_line_starts_record:
  "concat (reassemble_blocks translated) = content_lines translated
   \<and> (\<forall>b\<in>set (reassemble_blocks translated). b \<noteq> [] \<and> (\<forall>l\<in>set (tl b). py_int l = None))
   \<and> length (reassemble_blocks translated)
       = length (filter (\<lambda>l. py_int l \<noteq> None) (content_lines translated))
         + (if content_lines translated \<noteq> [] \<and> py_int (hd (content_lines translated)) = None
            then 1 else 0)
   \<and> validate_srt digits_text_srt = \<lparr>valid = True, errors = []\<rparr>
   \<and> id_lines (splitlines digits_text_srt) 0 = [0]
   \<and> reassemble_srt [\<lparr>tc_id = 1, translated_content = digits_text_srt\<rparr>] False
       = \<lparr>content = ''1\<newline>00:00:01,000 --> 00:00:02,000\<newline>\<newline>42'', subtitle_count = 2\<rparr>
   \<and> reassemble_srt [\<lparr>tc_id = 1, translated_content = digits_text_srt\<rparr>] True
       = \<lparr>content = ''1\<newline>00:00:01,000 --> 00:00:02,000\<newline>\<newline>2'', subtitle_count = 2\<rparr>"
proof -
  have g: "\<forall>b\<in>set (reassemble_blocks translated). b \<noteq> [] \<and> (\<forall>l\<in>set (tl b). py_int l = None)"
    using reassemble_blocks_good[of _ translated] by (auto simp: good_block_def list_all_iff)
  have e1: "validate_srt digits_text_srt = \<lparr>valid = True, errors = []\<rparr>" by code_simp
  have e2: "id_lines (splitlines digits_text_srt) 0 = [0]" by code_simp
  have e3: "reassemble_srt [\<lparr>tc_id = 1, translated_content = digits_text_srt\<rparr>] False
       = \<lparr>content = ''1\<newline>00:00:01,000 --> 00:00:02,000\<newline>\<newline>42'', subtitle_count = 2\<rparr>" by code_simp
  have e4: "reassemble_srt [\<lparr>tc_id = 1, translated_content = digits_text_srt\<rparr>] True
       = \<lparr>content = ''1\<newline>00:00:01,000 --> 00:00:02,000\<newline>\<newline>2'', subtitle_count = 2\<rparr>" by code_simp
  show ?thesis
    using reassemble_blocks_concat[of translated] g reassemble_blocks_count[of translated] e1 e2 e3 e4
    by blast
qed

theorem integer_line_starts_record_witness:
  "content_lines digits_text_srt = [''1'', ''00:00:01,000 --> 00:00:02,000'', ''42'']
   \<and> map py_int (content_lines digits_text_srt) = [Some 1, None, Some 42]
   \<and> reassemble_blocks digits_text_srt = [[''1'', ''00:00:01,000 --> 00:00:02,000''], [''42'']]
   \<and> length (reassemble_blocks digits_text_srt) = 2"
proof -
  have c: "content_lines digits_text_srt = [''1'', ''00:00:01,000 --> 00:00:02,000'', ''42'']"
    by code_simp
  have p: "map py_int (content_lines digits_text_srt) = [Some 1, None, Some 42]" by code_simp
  have b: "reassemble_blocks digits_text_srt = [[''1'', ''00:00:01,000 --> 00:00:02,000''], [''42'']]"
    by code_simp
  have f: "length (filter (\<lambda>l. py_int l \<noteq> None) (content_lines digits_text_srt)) = 2" by code_simp
  have h: "\<not> (content_lines digits_text_srt \<noteq> [] \<and> py_int (hd (content_lines digits_text_srt)) = None)"
    by code_simp
  from integer_line_starts_record[of digits_text_srt] f h
  have "length (reassemble_blocks digits_text_srt) = 2" by simp
  with c p b show ?thesis by blast
qed

section \<open>The splitter and the round trip\<close>

declare parse_pattern.simps [simp del] parse_set.simps [simp del]

lemma split_pattern_rejected:
  "parse_pattern split_pattern = Some (RegexError (''bad character range '' @ esc ''s->''))"
  by code_simp

lemma time_pattern_accepted: "parse_pattern time_pattern = None"
  by code_simp

lemma split_srt_always_raises:
  "split_srt finditer srt_content chunk_size = Inl (RegexError (''bad character range '' @ esc ''s->''))"
  unfolding split_srt_def re_compile_def split_pattern_rejected by simp

text \<open>
  C4 fails on the code. The block pattern of \<^verbatim>\<open>split_srt\<close> has the set \<^verbatim>\<open>[\d:,\s->]\<close>, in
  which \<^verbatim>\<open>\s->\<close> reads as a range that starts with a class; compiling the pattern raises
  \<^verbatim>\<open>re.error\<close>, so \<^verbatim>\<open>split_srt\<close> raises at \<^verbatim>\<open>re.finditer\<close> for every document and every
  chunk size, before any record is parsed. For the document of five records and chunks of
  two, the splitter agent answers with no chunk, a total of 0 and the error, where the
  tests of the repository expect three chunks and a total of 5; the chunking that follows
  in the code would give that from the five parsed records.
\<close>

theorem split_srt_raises_on_five_records:
  "split_srt finditer five_records 2 = Inl (RegexError (''bad character range '' @ esc ''s->''))
   \<and> splitter_agent_split finditer five_records 2
       = \<lparr>payload = \<lparr>split_chunks = [], total_subtitles = 0\<rparr>,
          failure = Some (RegexError (''bad character range '' @ esc ''s->''))\<rparr>
   \<and> validate_srt five_records = \<lparr>valid = True, errors = []\<rparr>
   \<and> length (id_lines (splitlines five_records) 0) = 5
   \<and> map sb_id (traditional_blocks five_records) = [1, 2, 3, 4, 5]
   \<and> map_sum id (\<lambda>r. (map (\<lambda>c. (chunk_id c, range_start c, range_end c)) (split_chunks r), total_subtitles r))
         (make_chunks (traditional_blocks five_records) 2)
       = Inr ([(1, 1, 2), (2, 3, 4), (3, 5, 5)], 5)"
proof -
  have a: "validate_srt five_records = \<lparr>valid = True, errors = []\<rparr>" by code_simp
  have b: "length (id_lines (splitlines five_records) 0) = 5" by code_simp
  have c: "map sb_id (traditional_blocks five_records) = [1, 2, 3, 4, 5]" by code_simp
  have d: "map_sum id (\<lambda>r. (map (\<lambda>c. (chunk_id c, range_start c, range_end c)) (split_chunks r), total_subtitles r))
         (make_chunks (traditional_blocks five_records) 2)
       = Inr ([(1, 1, 2), (2, 3, 4), (3, 5, 5)], 5)" by code_simp
  show ?thesis
    using a b c d by (simp add: split_srt_always_raises splitter_agent_split_def)
qed

text \<open>
  C1 fails on the code for the same reason: the round trip ends in the splitter's
  \<^verbatim>\<open>re.error\<close> for every document, also for one that the validator accepts, and the
  workflow with the modelled splitter agent stops with "split failed".
\<close>

theorem round_trip_raises_on_valid_document:
  "validate_srt hello_srt = \<lparr>valid = True, errors = []\<rparr>
   \<and> round_trip finditer hello_srt 1 = Inl (RegexError (''bad character range '' @ esc ''s->''))
   \<and> fst (process ((example_agents [])\<lparr>split := (\<lambda>srt_content chunk_size.
                        Inr (splitter_agent_split finditer srt_content chunk_size))\<rparr>)
              example_settings hello_srt ''en'' ''zh'' ''job'' None None (Some 1))
       = Failed ''job'' SplitFailed
           (Some (SplitDetails \<lparr>payload = \<lparr>split_chunks = [], total_subtitles = 0\<rparr>,
                    failure = Some (RegexError (''bad character range '' @ esc ''s->''))\<rparr>))"
proof -
  have a: "validate_srt hello_srt = \<lparr>valid = True, errors = []\<rparr>" by code_simp
  have b: "round_trip finditer hello_srt 1 = Inl (RegexError (''bad character range '' @ esc ''s->''))"
    by (simp add: round_trip_def split_srt_always_raises)
  have c: "fst (process ((example_agents [])\<lparr>split := (\<lambda>srt_content chunk_size.
                        Inr (splitter_agent_split finditer srt_content chunk_size))\<rparr>)
              example_settings hello_srt ''en'' ''zh'' ''job'' None None (Some 1))
       = Failed ''job'' SplitFailed
           (Some (SplitDetails \<lparr>payload = \<lparr>split_chunks = [], total_subtitles = 0\<rparr>,
                    failure = Some (RegexError (''bad character range '' @ esc ''s->''))\<rparr>))"
    using a
    by (simp add: process_def example_agents_def validator_agent_validate_def
        splitter_agent_split_def split_srt_always_raises stop_failed_def)
  from a b c show ?thesis by blast
qed

end
